theory Spec2Isabelle
  imports Main
begin

section \<open>Data model of the DDL table handlers (ddl/table.go)\<close>

text \<open>
  The handlers of \<^verbatim>\<open>ddl/table.go\<close> work on three kinds of data whose Go
  declarations live in other packages (\<^verbatim>\<open>model\<close>, \<^verbatim>\<open>meta\<close>,
  \<^verbatim>\<open>infoschema\<close>): the table descriptor, the job, and the metadata
  transaction. They are modelled here from the specification's data model; the
  handlers themselves are translated from the source, statement by statement.
  Identifiers and the schema version are Go \<^verbatim>\<open>int64\<close>; no handler does
  arithmetic on identifiers, and the version only grows by one, so both are
  \<^typ>\<open>int\<close> here.
\<close>

text \<open>Modelled from the spec: \<^verbatim>\<open>model.SchemaState\<close>, the visibility state of a
  descriptor, "drawn from {None, Public, WriteOnly, DeleteOnly}".\<close>

datatype SchemaState = StateNone | StateDeleteOnly | StateWriteOnly | StatePublic

text \<open>Modelled from the spec: \<^verbatim>\<open>model.JobState\<close>, the outcome state of a job
  (Running, Done, Cancelled).\<close>

datatype JobState = JobRunning | JobDone | JobCancelled

text \<open>
  Modelled from the spec: the error values, declared in the packages
  \<^verbatim>\<open>meta\<close>, \<^verbatim>\<open>infoschema\<close> and \<^verbatim>\<open>ddl\<close> ("a specific, typed cause:
  schema-not-found, table-exists, table-not-found, invalid-state").
  \<^verbatim>\<open>meta.ErrDBNotExists\<close> and its siblings are
  the metadata layer's own not-found / exists errors; \<^verbatim>\<open>infoschema.Err...\<close> are
  the typed causes the handlers report; \<open>ErrStore c\<close> is a transient failure of
  the store (conflict, unavailability) with an opaque code \<open>c\<close>;
  \<open>ErrInvalidTableState\<close> carries the state that the message is generated from.
\<close>

datatype error =
    ErrDecodeArgs
  | MetaErrDBNotExists
  | MetaErrTableExists
  | MetaErrTableNotExists
  | ErrDatabaseNotExists
  | ErrTableExists
  | ErrTableNotExists
  | ErrInvalidTableState SchemaState
  | ErrStore nat

text \<open>Modelled from the spec: \<^verbatim>\<open>model.CIStr\<close>, a name with its original and its
  case-normalized (lower-case) spelling; the source reads the field \<^verbatim>\<open>Name.L\<close>.\<close>

record CIStr =
  CIStr_O :: string
  CIStr_L :: string

text \<open>Modelled from the spec: \<^verbatim>\<open>model.TableInfo\<close>, the persisted table
  descriptor: "identifier, name, column/index definitions, and a visibility state".\<close>

record TableInfo =
  ID :: int
  Name :: CIStr
  Columns :: "string list"
  Indices :: "string list"
  State :: SchemaState

text \<open>Modelled from the spec: a history entry, "immutable record {version, job
  identifier, table descriptor snapshot}".\<close>

record HistoryEntry =
  HVersion :: int
  HJobID :: int
  HTable :: TableInfo

text \<open>Modelled from the spec: the encoded arguments of a job, "e.g., new table
  descriptor, or new table identifier for truncate"; \<open>ArgsOther\<close> stands for
  every other encoding (no arguments, or arguments of another job kind).\<close>

datatype JobArgs = ArgsTableInfo TableInfo | ArgsTableID int | ArgsOther

text \<open>
  Modelled from the spec: \<^verbatim>\<open>model.Job\<close>. \<open>JState\<close> is the Go field
  \<^verbatim>\<open>job.State\<close> (renamed: the descriptor has a field \<open>State\<close> too),
  \<open>SchemaState\<close> is the visibility sub-state. \<open>History\<close> holds the history
  entries recorded on the job: \<^verbatim>\<open>addTableHistoryInfo(job, ver, tblInfo)\<close> is
  handed the job only, not the metadata transaction.
\<close>

record Job =
  JobID :: int
  SchemaID :: int
  TableID :: int
  Args :: JobArgs
  JState :: JobState
  SchemaState :: SchemaState
  History :: "HistoryEntry list"

text \<open>Modelled from the spec: \<^verbatim>\<open>job.DecodeArgs\<close>, "decode-arguments-into(typed
  struct)", once for each type the handlers decode into; arguments of another
  shape are malformed and give an error.\<close>

definition DecodeArgs_TableInfo :: "Job \<Rightarrow> error + TableInfo" where
  "DecodeArgs_TableInfo job =
     (case Args job of ArgsTableInfo tbInfo \<Rightarrow> Inr tbInfo | _ \<Rightarrow> Inl ErrDecodeArgs)"

definition DecodeArgs_int64 :: "Job \<Rightarrow> error + int" where
  "DecodeArgs_int64 job =
     (case Args job of ArgsTableID newTableID \<Rightarrow> Inr newTableID | _ \<Rightarrow> Inl ErrDecodeArgs)"

section \<open>The metadata transaction\<close>

text \<open>
  Modelled from the spec: \<^verbatim>\<open>meta.Meta\<close>, the metadata transaction interface,
  "schema-scoped CRUD over table descriptors", descriptors "keyed by (schema
  identifier, table identifier)", plus the schema version counter. \<open>Schemas\<close>
  maps a schema identifier to the descriptors of its tables. \<open>Faults\<close> is the
  schedule of injected transient failures: every store operation takes the head of
  the schedule, and \<open>Some c\<close> there makes the operation fail with \<open>ErrStore c\<close>
  and change nothing; an empty schedule is a healthy store.
\<close>

record Meta =
  Schemas :: "int \<rightharpoonup> TableInfo list"
  SchemaVersion :: int
  Faults :: "nat option list"

definition nextFault :: "Meta \<Rightarrow> Meta \<times> nat option" where
  "nextFault t = (case Faults t of [] \<Rightarrow> (t, None) | f # fs \<Rightarrow> (t\<lparr>Faults := fs\<rparr>, f))"

text \<open>The descriptor persisted under (schema, table), as a reader of the store sees it.\<close>

definition tableOf :: "Meta \<Rightarrow> int \<Rightarrow> int \<Rightarrow> TableInfo option" where
  "tableOf t dbID tableID =
     (case Schemas t dbID of None \<Rightarrow> None
      | Some tbls \<Rightarrow> find (\<lambda>tb. ID tb = tableID) tbls)"

text \<open>Modelled from the spec: \<^verbatim>\<open>ListTables(schemaID) \<rightarrow> []Descriptor | NotFound\<close>.\<close>

definition ListTables :: "Meta \<Rightarrow> int \<Rightarrow> Meta \<times> (error + TableInfo list)" where
  "ListTables t dbID =
     (case nextFault t of
        (t1, Some c) \<Rightarrow> (t1, Inl (ErrStore c))
      | (t1, None) \<Rightarrow>
          (case Schemas t1 dbID of
             None \<Rightarrow> (t1, Inl MetaErrDBNotExists)
           | Some tbls \<Rightarrow> (t1, Inr tbls)))"

text \<open>Modelled from the spec: \<^verbatim>\<open>GetTable(schemaID, tableID) \<rightarrow> Descriptor? | NotFound\<close>:
  a missing schema is the not-found error, a missing table in an existing schema is
  the nil descriptor (the handlers test \<^verbatim>\<open>tblInfo == nil\<close>).\<close>

definition GetTable :: "Meta \<Rightarrow> int \<Rightarrow> int \<Rightarrow> Meta \<times> (error + TableInfo option)" where
  "GetTable t dbID tableID =
     (case nextFault t of
        (t1, Some c) \<Rightarrow> (t1, Inl (ErrStore c))
      | (t1, None) \<Rightarrow>
          (case Schemas t1 dbID of
             None \<Rightarrow> (t1, Inl MetaErrDBNotExists)
           | Some tbls \<Rightarrow> (t1, Inr (find (\<lambda>tb. ID tb = tableID) tbls))))"

text \<open>Modelled from the spec: \<^verbatim>\<open>CreateTable(schemaID, Descriptor) \<rightarrow> ok | error\<close>.
  The store is keyed by the table identifier, so inserting under an identifier that
  is taken is an error.\<close>

definition CreateTable :: "Meta \<Rightarrow> int \<Rightarrow> TableInfo \<Rightarrow> Meta \<times> error option" where
  "CreateTable t dbID tableInfo =
     (case nextFault t of
        (t1, Some c) \<Rightarrow> (t1, Some (ErrStore c))
      | (t1, None) \<Rightarrow>
          (case Schemas t1 dbID of
             None \<Rightarrow> (t1, Some MetaErrDBNotExists)
           | Some tbls \<Rightarrow>
               (case find (\<lambda>tb. ID tb = ID tableInfo) tbls of
                  Some _ \<Rightarrow> (t1, Some MetaErrTableExists)
                | None \<Rightarrow>
                    (t1\<lparr>Schemas := (Schemas t1)(dbID \<mapsto> tbls @ [tableInfo])\<rparr>, None))))"

text \<open>Modelled from the spec: \<^verbatim>\<open>UpdateTable(schemaID, Descriptor) \<rightarrow> ok | error\<close>:
  replaces the descriptor stored under the descriptor's identifier.\<close>

definition UpdateTable :: "Meta \<Rightarrow> int \<Rightarrow> TableInfo \<Rightarrow> Meta \<times> error option" where
  "UpdateTable t dbID tableInfo =
     (case nextFault t of
        (t1, Some c) \<Rightarrow> (t1, Some (ErrStore c))
      | (t1, None) \<Rightarrow>
          (case Schemas t1 dbID of
             None \<Rightarrow> (t1, Some MetaErrDBNotExists)
           | Some tbls \<Rightarrow>
               (case find (\<lambda>tb. ID tb = ID tableInfo) tbls of
                  None \<Rightarrow> (t1, Some MetaErrTableNotExists)
                | Some _ \<Rightarrow>
                    (t1\<lparr>Schemas := (Schemas t1)(dbID \<mapsto>
                          map (\<lambda>tb. if ID tb = ID tableInfo then tableInfo else tb) tbls)\<rparr>,
                     None))))"

text \<open>Modelled from the spec: \<^verbatim>\<open>DropTable(schemaID, tableID) \<rightarrow> ok | error\<close>:
  removes the descriptor stored under the identifier.\<close>

definition DropTable :: "Meta \<Rightarrow> int \<Rightarrow> int \<Rightarrow> Meta \<times> error option" where
  "DropTable t dbID tableID =
     (case nextFault t of
        (t1, Some c) \<Rightarrow> (t1, Some (ErrStore c))
      | (t1, None) \<Rightarrow>
          (case Schemas t1 dbID of
             None \<Rightarrow> (t1, Some MetaErrDBNotExists)
           | Some tbls \<Rightarrow>
               (case find (\<lambda>tb. ID tb = tableID) tbls of
                  None \<Rightarrow> (t1, Some MetaErrTableNotExists)
                | Some _ \<Rightarrow>
                    (t1\<lparr>Schemas := (Schemas t1)(dbID \<mapsto>
                          filter (\<lambda>tb. ID tb \<noteq> tableID) tbls)\<rparr>,
                     None))))"

text \<open>Modelled from the spec: \<^verbatim>\<open>updateSchemaVersion(t, job)\<close>, "atomically
  increment the shared version counter"; it returns the new version.\<close>

definition updateSchemaVersion :: "Meta \<Rightarrow> Job \<Rightarrow> Meta \<times> (error + int)" where
  "updateSchemaVersion t job =
     (case nextFault t of
        (t1, Some c) \<Rightarrow> (t1, Inl (ErrStore c))
      | (t1, None) \<Rightarrow>
          (t1\<lparr>SchemaVersion := SchemaVersion t1 + 1\<rparr>, Inr (SchemaVersion t1 + 1)))"

text \<open>Modelled from the spec: \<^verbatim>\<open>addTableHistoryInfo(job, ver, tblInfo)\<close>, "append
  a history entry" \<open>{version, job identifier, table descriptor snapshot}\<close>.\<close>

definition addTableHistoryInfo :: "Job \<Rightarrow> int \<Rightarrow> TableInfo \<Rightarrow> Job" where
  "addTableHistoryInfo job ver tblInfo =
     job\<lparr>History := History job @
           [\<lparr>HVersion = ver, HJobID = JobID job, HTable = tblInfo\<rparr>]\<rparr>"

section \<open>The handlers of ddl/table.go\<close>

text \<open>
  A Go handler \<^verbatim>\<open>func (d *ddl) h(t *meta.Meta, job *model.Job) error\<close> mutates
  the transaction and the job in place and returns an error; its model returns the
  transaction and the job as they are when the handler returns, and the error
  (\<open>None\<close> for \<^verbatim>\<open>nil\<close>). Committing or aborting the transaction is the
  caller's business and not part of this file.
\<close>

subsection \<open>getTableInfo\<close>

definition getTableInfo :: "Meta \<Rightarrow> Job \<Rightarrow> Meta \<times> Job \<times> (error + TableInfo)" where
  "getTableInfo t job =
     (let schemaID = SchemaID job; tableID = TableID job in
      case GetTable t schemaID tableID of
        (t1, Inl err) \<Rightarrow>
          if err = MetaErrDBNotExists
          then (t1, job\<lparr>JState := JobCancelled\<rparr>, Inl ErrDatabaseNotExists)
          else (t1, job, Inl err)
      | (t1, Inr None) \<Rightarrow> (t1, job\<lparr>JState := JobCancelled\<rparr>, Inl ErrTableNotExists)
      | (t1, Inr (Some tblInfo)) \<Rightarrow>
          if State tblInfo \<noteq> StatePublic
          then (t1, job\<lparr>JState := JobCancelled\<rparr>, Inl (ErrInvalidTableState (State tblInfo)))
          else (t1, job, Inr tblInfo))"

subsection \<open>onCreateTable\<close>

text \<open>
  The loop over the listed tables (lines 46-56): a table with the candidate's
  case-normalized name and another identifier ends the handler with the table-exists
  error; one with the same identifier replaces the candidate (\<^verbatim>\<open>tbInfo = tbl\<close>)
  and the loop goes on.
\<close>

fun checkTables :: "TableInfo list \<Rightarrow> TableInfo \<Rightarrow> error + TableInfo" where
  "checkTables [] tbInfo = Inr tbInfo"
| "checkTables (tbl # tables) tbInfo =
     (if CIStr_L (Name tbl) = CIStr_L (Name tbInfo)
      then (if ID tbl \<noteq> ID tbInfo then Inl ErrTableExists
            else checkTables tables tbl)
      else checkTables tables tbInfo)"

definition onCreateTable :: "Meta \<Rightarrow> Job \<Rightarrow> Meta \<times> Job \<times> error option" where
  "onCreateTable t job =
     (let schemaID = SchemaID job in
      case DecodeArgs_TableInfo job of
        Inl err \<Rightarrow> (t, job\<lparr>JState := JobCancelled\<rparr>, Some err)
      | Inr tbInfo0 \<Rightarrow>
          (let tbInfo = tbInfo0\<lparr>State := StateNone\<rparr> in
           case ListTables t schemaID of
             (t1, Inl err) \<Rightarrow>
               if err = MetaErrDBNotExists
               then (t1, job\<lparr>JState := JobCancelled\<rparr>, Some ErrDatabaseNotExists)
               else (t1, job, Some err)
           | (t1, Inr tables) \<Rightarrow>
               (case checkTables tables tbInfo of
                  Inl err \<Rightarrow> (t1, job\<lparr>JState := JobCancelled\<rparr>, Some err)
                | Inr tbInfo1 \<Rightarrow>
                    (case updateSchemaVersion t1 job of
                       (t2, Inl err) \<Rightarrow> (t2, job, Some err)
                     | (t2, Inr ver) \<Rightarrow>
                         (case State tbInfo1 of
                            StateNone \<Rightarrow>
                              (let job1 = job\<lparr>SchemaState := StatePublic\<rparr>;
                                   tbInfo2 = tbInfo1\<lparr>State := StatePublic\<rparr> in
                               case CreateTable t2 schemaID tbInfo2 of
                                 (t3, Some err) \<Rightarrow> (t3, job1, Some err)
                               | (t3, None) \<Rightarrow>
                                   (t3, addTableHistoryInfo (job1\<lparr>JState := JobDone\<rparr>) ver tbInfo2,
                                    None))
                          | _ \<Rightarrow> (t2, job, Some (ErrInvalidTableState (State tbInfo1))))))))"

subsection \<open>onDropTable\<close>

text \<open>
  In the \<^verbatim>\<open>StateDeleteOnly\<close> case the error of \<^verbatim>\<open>UpdateTable\<close> is assigned
  and then overwritten by the result of \<^verbatim>\<open>DropTable\<close>; the model drops it
  the same way.
\<close>

definition onDropTable :: "Meta \<Rightarrow> Job \<Rightarrow> Meta \<times> Job \<times> error option" where
  "onDropTable t job =
     (let schemaID = SchemaID job; tableID = TableID job in
      case GetTable t schemaID tableID of
        (t1, Inl err) \<Rightarrow>
          if err = MetaErrDBNotExists
          then (t1, job\<lparr>JState := JobCancelled\<rparr>, Some ErrDatabaseNotExists)
          else (t1, job, Some err)
      | (t1, Inr None) \<Rightarrow> (t1, job\<lparr>JState := JobCancelled\<rparr>, Some ErrTableNotExists)
      | (t1, Inr (Some tblInfo)) \<Rightarrow>
          (case updateSchemaVersion t1 job of
             (t2, Inl err) \<Rightarrow> (t2, job, Some err)
           | (t2, Inr ver) \<Rightarrow>
               (case State tblInfo of
                  StatePublic \<Rightarrow>
                    (let job1 = job\<lparr>SchemaState := StateWriteOnly\<rparr>;
                         tblInfo1 = tblInfo\<lparr>State := StateWriteOnly\<rparr> in
                     case UpdateTable t2 schemaID tblInfo1 of
                       (t3, err) \<Rightarrow> (t3, job1, err))
                | StateWriteOnly \<Rightarrow>
                    (let job1 = job\<lparr>SchemaState := StateDeleteOnly\<rparr>;
                         tblInfo1 = tblInfo\<lparr>State := StateDeleteOnly\<rparr> in
                     case UpdateTable t2 schemaID tblInfo1 of
                       (t3, err) \<Rightarrow> (t3, job1, err))
                | StateDeleteOnly \<Rightarrow>
                    (let tblInfo1 = tblInfo\<lparr>State := StateNone\<rparr> in
                     case UpdateTable t2 schemaID tblInfo1 of
                       (t3, _) \<Rightarrow>
                         (case DropTable t3 (SchemaID job) (TableID job) of
                            (t4, Some err) \<Rightarrow> (t4, job, Some err)
                          | (t4, None) \<Rightarrow>
                              (t4,
                               addTableHistoryInfo
                                 (job\<lparr>JState := JobDone, SchemaState := StateNone\<rparr>) ver tblInfo1,
                               None)))
                | StateNone \<Rightarrow> (t2, job, Some (ErrInvalidTableState (State tblInfo))))))"

subsection \<open>onTruncateTable\<close>

definition onTruncateTable :: "Meta \<Rightarrow> Job \<Rightarrow> Meta \<times> Job \<times> error option" where
  "onTruncateTable t job =
     (let schemaID = SchemaID job; tableID = TableID job in
      case DecodeArgs_int64 job of
        Inl err \<Rightarrow> (t, job\<lparr>JState := JobCancelled\<rparr>, Some err)
      | Inr newTableID \<Rightarrow>
          (case GetTable t schemaID tableID of
             (t1, Inl err) \<Rightarrow>
               if err = MetaErrDBNotExists
               then (t1, job\<lparr>JState := JobCancelled\<rparr>, Some ErrDatabaseNotExists)
               else (t1, job, Some err)
           | (t1, Inr None) \<Rightarrow> (t1, job\<lparr>JState := JobCancelled\<rparr>, Some ErrTableNotExists)
           | (t1, Inr (Some tblInfo)) \<Rightarrow>
               (case DropTable t1 schemaID tableID of
                  (t2, Some err) \<Rightarrow> (t2, job\<lparr>JState := JobCancelled\<rparr>, Some err)
                | (t2, None) \<Rightarrow>
                    (let tblInfo1 = tblInfo\<lparr>ID := newTableID\<rparr> in
                     case CreateTable t2 schemaID tblInfo1 of
                       (t3, Some err) \<Rightarrow> (t3, job\<lparr>JState := JobCancelled\<rparr>, Some err)
                     | (t3, None) \<Rightarrow>
                         (case updateSchemaVersion t3 job of
                            (t4, Inl err) \<Rightarrow> (t4, job, Some err)
                          | (t4, Inr ver) \<Rightarrow>
                              (t4, addTableHistoryInfo (job\<lparr>JState := JobDone\<rparr>) ver tblInfo1,
                               None))))))"

subsection \<open>delReorgTable and dropTableData\<close>

text \<open>
  Modelled from the spec: the key-value store behind \<^verbatim>\<open>d.store\<close>. "All encoded
  row keys are prefixed by table identifier": a row key is the pair of its table
  identifier and its row handle, \<^verbatim>\<open>EncodeTablePrefix(tableID)\<close> is the table
  identifier, and a key has the prefix when its first component is that identifier.
  \<open>storeFaults\<close> schedules transient failures as \<open>Faults\<close> does.
\<close>

type_synonym Key = "int \<times> int"

record ddl =
  store :: "Key list"
  storeFaults :: "nat option list"

definition EncodeTablePrefix :: "int \<Rightarrow> int" where
  "EncodeTablePrefix tableID = tableID"

definition HasPrefix :: "int \<Rightarrow> Key \<Rightarrow> bool" where
  "HasPrefix prefix k = (fst k = prefix)"

text \<open>Removes the first \<open>n\<close> elements that satisfy \<open>P\<close>.\<close>

fun delFirst :: "('a \<Rightarrow> bool) \<Rightarrow> nat \<Rightarrow> 'a list \<Rightarrow> 'a list" where
  "delFirst P 0 xs = xs"
| "delFirst P (Suc n) [] = []"
| "delFirst P (Suc n) (x # xs) =
     (if P x then delFirst P n xs else x # delFirst P (Suc n) xs)"

text \<open>
  Modelled from the spec: \<^verbatim>\<open>delKeysWithPrefix\<close>, the bounded "delete keys with
  this prefix, up to N" primitive, with the source's comment "deletes data in a
  limited number. If limit < 0, deletes all data". It returns the number of keys
  it deleted. (The job-type flag and the job that the call passes along are not
  described by the spec and play no part here.)
\<close>

definition delKeysWithPrefix :: "ddl \<Rightarrow> int \<Rightarrow> int \<Rightarrow> ddl \<times> (error + int)" where
  "delKeysWithPrefix d prefix limit =
     (case storeFaults d of
        Some c # fs \<Rightarrow> (d\<lparr>storeFaults := fs\<rparr>, Inl (ErrStore c))
      | fs \<Rightarrow>
          (let n = length (filter (HasPrefix prefix) (store d));
               cnt = (if limit < 0 then n else min n (nat limit))
           in (d\<lparr>store := delFirst (HasPrefix prefix) cnt (store d), storeFaults := tl fs\<rparr>,
               Inr (int cnt))))"

definition dropTableData :: "ddl \<Rightarrow> int \<Rightarrow> Job \<Rightarrow> int \<Rightarrow> ddl \<times> (error + int)" where
  "dropTableData d tID job limit = delKeysWithPrefix d (EncodeTablePrefix tID) limit"

text \<open>The constant \<^verbatim>\<open>defaultBatchSize\<close> is declared outside this file; it is the
  first parameter of the model.\<close>

definition delReorgTable :: "int \<Rightarrow> ddl \<Rightarrow> Meta \<Rightarrow> Job \<Rightarrow> ddl \<times> Job \<times> error option" where
  "delReorgTable defaultBatchSize d t job =
     (let limit = defaultBatchSize in
      case dropTableData d (TableID job) job limit of
        (d1, Inl err) \<Rightarrow> (d1, job, Some err)
      | (d1, Inr delCount) \<Rightarrow>
          if delCount < limit
          then (d1, job\<lparr>SchemaState := StateNone, JState := JobDone\<rparr>, None)
          else (d1, job, None))"

text \<open>The number of rows of a table that are still in the store.\<close>

definition rowCount :: "ddl \<Rightarrow> int \<Rightarrow> nat" where
  "rowCount d tableID = length (filter (HasPrefix (EncodeTablePrefix tableID)) (store d))"

section \<open>Auxiliary notions and sample data\<close>

text \<open>None of the next \<open>n\<close> store operations of the transaction fails transiently.\<close>

definition healthy :: "nat \<Rightarrow> Meta \<Rightarrow> bool" where
  "healthy n t = list_all (\<lambda>f. f = None) (take n (Faults t))"

text \<open>The first store operation that fails transiently is the one with index \<open>k\<close>
  (counted from 0), and it fails with code \<open>c\<close>.\<close>

definition firstFaultAt :: "nat \<Rightarrow> nat \<Rightarrow> Meta \<Rightarrow> bool" where
  "firstFaultAt k c t = (take (Suc k) (Faults t) = replicate k None @ [Some c])"

text \<open>The number of store operations an invocation performed, read off the fault
  schedule before and after it (meaningful while the schedule is not used up).\<close>

definition opsPerformed :: "Meta \<Rightarrow> Meta \<Rightarrow> nat" where
  "opsPerformed t t' = length (Faults t) - length (Faults t')"

text \<open>
  Sample data for the concrete runs below: schema 5 holds one table, identifier 10,
  name \<open>t\<close>, in state Public; the schema version is 7 and no failure is scheduled.
\<close>

definition exTable :: TableInfo where
  "exTable = \<lparr>ID = 10, Name = \<lparr>CIStr_O = ''T'', CIStr_L = ''t''\<rparr>,
               Columns = [''a'', ''b''], Indices = [''idx_a''], State = StatePublic\<rparr>"

definition exMeta :: Meta where
  "exMeta = \<lparr>Schemas = [5 \<mapsto> [exTable]], SchemaVersion = 7, Faults = []\<rparr>"

definition exJob :: "JobArgs \<Rightarrow> Job" where
  "exJob args = \<lparr>JobID = 1, SchemaID = 5, TableID = 10, Args = args, JState = JobRunning,
                  SchemaState = StateNone, History = []\<rparr>"

text \<open>
  The scheduler's re-invocation of the reclamation job: the state after \<open>k\<close>
  invocations of \<open>delReorgTable\<close>, each one handed the store and the job that the
  previous one left.
\<close>

fun reorgRun :: "int \<Rightarrow> ddl \<Rightarrow> Meta \<Rightarrow> Job \<Rightarrow> nat \<Rightarrow> ddl \<times> Job \<times> error option" where
  "reorgRun lim d t job 0 = (d, job, None)"
| "reorgRun lim d t job (Suc k) =
     (case reorgRun lim d t job k of (d1, job1, _) \<Rightarrow> delReorgTable lim d1 t job1)"

text \<open>A store with 250 rows of table 10 and two rows of table 11, no failure scheduled.\<close>

definition exStore :: ddl where
  "exStore = \<lparr>store = map (\<lambda>h. (10, int h)) [0..<250] @ [(11, 0), (11, 1)], storeFaults = []\<rparr>"

section \<open>Facts about the store operations\<close>

lemma find_ID: "find (\<lambda>tb. ID tb = i) tbls = Some tb \<Longrightarrow> ID tb = i"
  by (induction tbls) (auto split: if_splits)

lemma find_replace:
  "find (\<lambda>tb. ID tb = i) tbls \<noteq> None \<Longrightarrow> ID tbl = i \<Longrightarrow>
   find (\<lambda>tb. ID tb = i) (map (\<lambda>tb. if ID tb = i then tbl else tb) tbls) = Some tbl"
  by (induction tbls) (auto split: if_splits)

lemma find_removed: "find (\<lambda>tb. ID tb = i) (filter (\<lambda>tb. ID tb \<noteq> i) tbls) = None"
  by (induction tbls) auto

lemma find_kept:
  "j \<noteq> i \<Longrightarrow>
   find (\<lambda>tb. ID tb = j) (filter (\<lambda>tb. ID tb \<noteq> i) tbls) = find (\<lambda>tb. ID tb = j) tbls"
  by (induction tbls) auto

lemma find_append:
  "find P (xs @ [x]) =
     (case find P xs of Some y \<Rightarrow> Some y | None \<Rightarrow> if P x then Some x else None)"
  by (induction xs) (auto split: if_splits)

lemma tableOf_ID: "tableOf t db i = Some tb \<Longrightarrow> ID tb = i"
  by (auto simp: tableOf_def dest: find_ID split: option.splits)

lemma GetTable_Inr:
  "GetTable t db i = (t1, Inr r) \<Longrightarrow>
   r = tableOf t db i \<and> Schemas t1 = Schemas t \<and> SchemaVersion t1 = SchemaVersion t \<and>
   Schemas t db \<noteq> None"
  by (auto simp: GetTable_def nextFault_def tableOf_def split: list.splits option.splits)

lemma ListTables_Inr:
  "ListTables t db = (t1, Inr tbls) \<Longrightarrow>
   Schemas t db = Some tbls \<and> Schemas t1 = Schemas t \<and> SchemaVersion t1 = SchemaVersion t"
  by (auto simp: ListTables_def nextFault_def split: list.splits option.splits)

lemma updateSchemaVersion_Inr:
  "updateSchemaVersion t job = (t1, Inr ver) \<Longrightarrow>
   ver = SchemaVersion t + 1 \<and> SchemaVersion t1 = SchemaVersion t + 1 \<and> Schemas t1 = Schemas t"
  by (auto simp: updateSchemaVersion_def nextFault_def split: list.splits option.splits)

lemma UpdateTable_None:
  "UpdateTable t db tbl = (t1, None) \<Longrightarrow>
   tableOf t1 db (ID tbl) = Some tbl \<and> SchemaVersion t1 = SchemaVersion t"
  by (auto simp: UpdateTable_def nextFault_def tableOf_def find_replace
      split: list.splits option.splits)

lemma UpdateTable_version:
  "UpdateTable t db tbl = (t1, e) \<Longrightarrow> SchemaVersion t1 = SchemaVersion t"
  by (auto simp: UpdateTable_def nextFault_def split: list.splits option.splits)

lemma DropTable_None:
  "DropTable t db i = (t1, None) \<Longrightarrow>
   tableOf t1 db i = None \<and> SchemaVersion t1 = SchemaVersion t \<and>
   (\<forall>j. j \<noteq> i \<longrightarrow> tableOf t1 db j = tableOf t db j)"
  by (auto simp: DropTable_def nextFault_def tableOf_def find_removed find_kept
      split: list.splits option.splits)

lemma CreateTable_None:
  "CreateTable t db tbl = (t1, None) \<Longrightarrow>
   tableOf t1 db (ID tbl) = Some tbl \<and> tableOf t db (ID tbl) = None \<and>
   SchemaVersion t1 = SchemaVersion t \<and>
   (\<forall>j. j \<noteq> ID tbl \<longrightarrow> tableOf t1 db j = tableOf t db j)"
  by (auto simp: CreateTable_def nextFault_def tableOf_def find_append
      split: list.splits option.splits)

section \<open>The drop handler, one transition at a time\<close>

lemma drop_step_public:
  assumes "tableOf t (SchemaID job) (TableID job) = Some tbl" "State tbl = StatePublic"
    and "onDropTable t job = (t', job', None)"
  shows "tableOf t' (SchemaID job) (TableID job) = Some (tbl\<lparr>State := StateWriteOnly\<rparr>) \<and>
         job' = job\<lparr>SchemaState := StateWriteOnly\<rparr> \<and> SchemaVersion t' = SchemaVersion t + 1"
  using assms tableOf_ID[OF assms(1)]
  by (auto simp: onDropTable_def Let_def
      dest!: GetTable_Inr updateSchemaVersion_Inr UpdateTable_None
      split: option.splits if_splits prod.splits sum.splits)

lemma drop_step_writeonly:
  assumes "tableOf t (SchemaID job) (TableID job) = Some tbl" "State tbl = StateWriteOnly"
    and "onDropTable t job = (t', job', None)"
  shows "tableOf t' (SchemaID job) (TableID job) = Some (tbl\<lparr>State := StateDeleteOnly\<rparr>) \<and>
         job' = job\<lparr>SchemaState := StateDeleteOnly\<rparr> \<and> SchemaVersion t' = SchemaVersion t + 1"
  using assms tableOf_ID[OF assms(1)]
  by (auto simp: onDropTable_def Let_def
      dest!: GetTable_Inr updateSchemaVersion_Inr UpdateTable_None
      split: option.splits if_splits prod.splits sum.splits)

lemma drop_step_deleteonly:
  assumes "tableOf t (SchemaID job) (TableID job) = Some tbl" "State tbl = StateDeleteOnly"
    and "onDropTable t job = (t', job', None)"
  shows "tableOf t' (SchemaID job) (TableID job) = None \<and>
         job' = job\<lparr>JState := JobDone, SchemaState := StateNone,
                  History := History job @
                    [\<lparr>HVersion = SchemaVersion t + 1, HJobID = JobID job,
                      HTable = tbl\<lparr>State := StateNone\<rparr>\<rparr>]\<rparr> \<and>
         SchemaVersion t' = SchemaVersion t + 1"
  using assms
  by (auto simp: onDropTable_def Let_def addTableHistoryInfo_def
      dest!: GetTable_Inr updateSchemaVersion_Inr UpdateTable_version DropTable_None
      split: option.splits if_splits prod.splits sum.splits)

text \<open>On a healthy store the handler succeeds on every table in a teardown state.\<close>

lemma onDropTable_healthy:
  assumes "Faults t = []" "tableOf t (SchemaID job) (TableID job) = Some tbl"
    and "State tbl \<noteq> StateNone"
  shows "snd (snd (onDropTable t job)) = None \<and> Faults (fst (onDropTable t job)) = []"
  using assms tableOf_ID[OF assms(2)]
  by (cases "State tbl")
     (auto simp: onDropTable_def Let_def nextFault_def GetTable_def updateSchemaVersion_def
        UpdateTable_def DropTable_def tableOf_def find_replace
      split: option.splits)

text \<open>
  Claim C1. A table whose persisted descriptor is Public is removed by exactly three
  successful invocations of \<open>onDropTable\<close>, one transition each. If the first
  invocation returns without error, the persisted descriptor is the old one in state
  WriteOnly (the table is still there) and the job's outcome is as it was; if then
  the second returns without error, the persisted descriptor is in state DeleteOnly
  and the job's outcome is as it was; if then the third returns without error, the
  table is absent from the store and the job is Done. Each of these conclusions
  depends only on the invocations up to that point. The three invocations may be
  handed any jobs that name the schema and the table (the job as reloaded after a
  restart): the handler resumes from the persisted descriptor. On a store with no
  failure scheduled each of the three invocations does return without error.
\<close>

theorem onDropTable_three_invocations:
  assumes "tableOf t sid tid = Some tbl" and "State tbl = StatePublic"
    and "SchemaID ja = sid" "TableID ja = tid"
    and "SchemaID jb = sid" "TableID jb = tid"
    and "SchemaID jc = sid" "TableID jc = tid"
  shows "(Faults t = [] \<longrightarrow> snd (snd (onDropTable t ja)) = None) \<and>
         (onDropTable t ja = (t1, ja', None) \<longrightarrow>
            tableOf t1 sid tid = Some (tbl\<lparr>State := StateWriteOnly\<rparr>) \<and>
            JState ja' = JState ja \<and> SchemaState ja' = StateWriteOnly \<and>
            (Faults t1 = [] \<longrightarrow> snd (snd (onDropTable t1 jb)) = None) \<and>
            (onDropTable t1 jb = (t2, jb', None) \<longrightarrow>
               tableOf t2 sid tid = Some (tbl\<lparr>State := StateDeleteOnly\<rparr>) \<and>
               JState jb' = JState jb \<and> SchemaState jb' = StateDeleteOnly \<and>
               (Faults t2 = [] \<longrightarrow> snd (snd (onDropTable t2 jc)) = None) \<and>
               (onDropTable t2 jc = (t3, jc', None) \<longrightarrow>
                  tableOf t3 sid tid = None \<and>
                  JState jc' = JobDone \<and> SchemaState jc' = StateNone)))"
proof -
  have p0: "Faults t = [] \<longrightarrow> snd (snd (onDropTable t ja)) = None"
    using onDropTable_healthy[of t ja tbl] assms by simp
  have s1: "tableOf t1 sid tid = Some (tbl\<lparr>State := StateWriteOnly\<rparr>) \<and>
            JState ja' = JState ja \<and> SchemaState ja' = StateWriteOnly"
    if r1: "onDropTable t ja = (t1, ja', None)"
    using drop_step_public[of t ja tbl t1 ja'] assms r1 by simp
  have p1: "Faults t1 = [] \<longrightarrow> snd (snd (onDropTable t1 jb)) = None"
    if r1: "onDropTable t ja = (t1, ja', None)"
    using onDropTable_healthy[of t1 jb "tbl\<lparr>State := StateWriteOnly\<rparr>"] s1[OF r1] assms
    by simp
  have s2: "tableOf t2 sid tid = Some (tbl\<lparr>State := StateDeleteOnly\<rparr>) \<and>
            JState jb' = JState jb \<and> SchemaState jb' = StateDeleteOnly"
    if r1: "onDropTable t ja = (t1, ja', None)" and r2: "onDropTable t1 jb = (t2, jb', None)"
    using drop_step_writeonly[of t1 jb "tbl\<lparr>State := StateWriteOnly\<rparr>" t2 jb'] s1[OF r1]
      assms r2
    by simp
  have p2: "Faults t2 = [] \<longrightarrow> snd (snd (onDropTable t2 jc)) = None"
    if r1: "onDropTable t ja = (t1, ja', None)" and r2: "onDropTable t1 jb = (t2, jb', None)"
    using onDropTable_healthy[of t2 jc "tbl\<lparr>State := StateDeleteOnly\<rparr>"] s2[OF r1 r2] assms
    by simp
  have s3: "tableOf t3 sid tid = None \<and> JState jc' = JobDone \<and> SchemaState jc' = StateNone"
    if r1: "onDropTable t ja = (t1, ja', None)" and r2: "onDropTable t1 jb = (t2, jb', None)"
      and r3: "onDropTable t2 jc = (t3, jc', None)"
    using drop_step_deleteonly[of t2 jc "tbl\<lparr>State := StateDeleteOnly\<rparr>" t3 jc']
      s2[OF r1 r2] assms r3
    by simp
  show ?thesis using p0 s1 p1 s2 p2 s3 by blast
qed

text \<open>The run on the sample store: versions 8, 9, 10, and one history entry at the end.\<close>

theorem onDropTable_three_invocations_witness:
  "tableOf exMeta 5 10 = Some exTable \<and> State exTable = StatePublic \<and>
   onDropTable exMeta (exJob ArgsOther) =
     (exMeta\<lparr>Schemas := [5 \<mapsto> [exTable\<lparr>State := StateWriteOnly\<rparr>]], SchemaVersion := 8\<rparr>,
      (exJob ArgsOther)\<lparr>SchemaState := StateWriteOnly\<rparr>, None) \<and>
   onDropTable
     (exMeta\<lparr>Schemas := [5 \<mapsto> [exTable\<lparr>State := StateWriteOnly\<rparr>]], SchemaVersion := 8\<rparr>)
     ((exJob ArgsOther)\<lparr>SchemaState := StateWriteOnly\<rparr>) =
     (exMeta\<lparr>Schemas := [5 \<mapsto> [exTable\<lparr>State := StateDeleteOnly\<rparr>]], SchemaVersion := 9\<rparr>,
      (exJob ArgsOther)\<lparr>SchemaState := StateDeleteOnly\<rparr>, None) \<and>
   onDropTable
     (exMeta\<lparr>Schemas := [5 \<mapsto> [exTable\<lparr>State := StateDeleteOnly\<rparr>]], SchemaVersion := 9\<rparr>)
     ((exJob ArgsOther)\<lparr>SchemaState := StateDeleteOnly\<rparr>) =
     (exMeta\<lparr>Schemas := [5 \<mapsto> []], SchemaVersion := 10\<rparr>,
      (exJob ArgsOther)\<lparr>JState := JobDone, SchemaState := StateNone,
         History := [\<lparr>HVersion = 10, HJobID = 1, HTable = exTable\<lparr>State := StateNone\<rparr>\<rparr>]\<rparr>,
      None) \<and>
   tableOf (exMeta\<lparr>Schemas := [5 \<mapsto> [exTable\<lparr>State := StateWriteOnly\<rparr>]], SchemaVersion := 8\<rparr>)
     5 10 = Some (exTable\<lparr>State := StateWriteOnly\<rparr>) \<and>
   tableOf (exMeta\<lparr>Schemas := [5 \<mapsto> [exTable\<lparr>State := StateDeleteOnly\<rparr>]], SchemaVersion := 9\<rparr>)
     5 10 = Some (exTable\<lparr>State := StateDeleteOnly\<rparr>) \<and>
   tableOf (exMeta\<lparr>Schemas := [5 \<mapsto> []], SchemaVersion := 10\<rparr>) 5 10 = None"
proof -
  have h0: "tableOf exMeta 5 10 = Some exTable" "State exTable = StatePublic"
    by (simp_all add: exMeta_def exTable_def tableOf_def)
  have ids: "SchemaID (exJob ArgsOther) = 5" "TableID (exJob ArgsOther) = 10"
    "SchemaID ((exJob ArgsOther)\<lparr>SchemaState := StateWriteOnly\<rparr>) = 5"
    "TableID ((exJob ArgsOther)\<lparr>SchemaState := StateWriteOnly\<rparr>) = 10"
    "SchemaID ((exJob ArgsOther)\<lparr>SchemaState := StateDeleteOnly\<rparr>) = 5"
    "TableID ((exJob ArgsOther)\<lparr>SchemaState := StateDeleteOnly\<rparr>) = 10"
    by (simp_all add: exJob_def)
  have r1: "onDropTable exMeta (exJob ArgsOther) =
     (exMeta\<lparr>Schemas := [5 \<mapsto> [exTable\<lparr>State := StateWriteOnly\<rparr>]], SchemaVersion := 8\<rparr>,
      (exJob ArgsOther)\<lparr>SchemaState := StateWriteOnly\<rparr>, None)"
    by (simp add: exMeta_def exTable_def exJob_def onDropTable_def nextFault_def GetTable_def
          updateSchemaVersion_def UpdateTable_def)
  have r2: "onDropTable
     (exMeta\<lparr>Schemas := [5 \<mapsto> [exTable\<lparr>State := StateWriteOnly\<rparr>]], SchemaVersion := 8\<rparr>)
     ((exJob ArgsOther)\<lparr>SchemaState := StateWriteOnly\<rparr>) =
     (exMeta\<lparr>Schemas := [5 \<mapsto> [exTable\<lparr>State := StateDeleteOnly\<rparr>]], SchemaVersion := 9\<rparr>,
      (exJob ArgsOther)\<lparr>SchemaState := StateDeleteOnly\<rparr>, None)"
    by (simp add: exMeta_def exTable_def exJob_def onDropTable_def nextFault_def GetTable_def
          updateSchemaVersion_def UpdateTable_def)
  have r3: "onDropTable
     (exMeta\<lparr>Schemas := [5 \<mapsto> [exTable\<lparr>State := StateDeleteOnly\<rparr>]], SchemaVersion := 9\<rparr>)
     ((exJob ArgsOther)\<lparr>SchemaState := StateDeleteOnly\<rparr>) =
     (exMeta\<lparr>Schemas := [5 \<mapsto> []], SchemaVersion := 10\<rparr>,
      (exJob ArgsOther)\<lparr>JState := JobDone, SchemaState := StateNone,
         History := [\<lparr>HVersion = 10, HJobID = 1, HTable = exTable\<lparr>State := StateNone\<rparr>\<rparr>]\<rparr>,
      None)"
    by (simp add: exMeta_def exTable_def exJob_def onDropTable_def nextFault_def GetTable_def
          updateSchemaVersion_def UpdateTable_def DropTable_def addTableHistoryInfo_def)
  have f: "Faults exMeta = []" by (simp add: exMeta_def)
  show ?thesis
    using onDropTable_three_invocations[OF h0 ids,
        where ?t1.0 = "exMeta\<lparr>Schemas := [5 \<mapsto> [exTable\<lparr>State := StateWriteOnly\<rparr>]],
                         SchemaVersion := 8\<rparr>"
          and ja' = "(exJob ArgsOther)\<lparr>SchemaState := StateWriteOnly\<rparr>"
          and ?t2.0 = "exMeta\<lparr>Schemas := [5 \<mapsto> [exTable\<lparr>State := StateDeleteOnly\<rparr>]],
                         SchemaVersion := 9\<rparr>"
          and jb' = "(exJob ArgsOther)\<lparr>SchemaState := StateDeleteOnly\<rparr>"
          and ?t3.0 = "exMeta\<lparr>Schemas := [5 \<mapsto> []], SchemaVersion := 10\<rparr>"
          and jc' = "(exJob ArgsOther)\<lparr>JState := JobDone, SchemaState := StateNone,
             History := [\<lparr>HVersion = 10, HJobID = 1,
                          HTable = exTable\<lparr>State := StateNone\<rparr>\<rparr>]\<rparr>"]
      f h0 r1 r2 r3
    by simp
qed

section \<open>The runtime-handle accessor\<close>

text \<open>
  Claim C9. \<open>getTableInfo\<close> returns a descriptor without error if and only if the
  read of the store goes through, the descriptor is persisted under the job's
  (schema, table) and its visibility state is Public; the job is then unchanged.
  When the read goes through and the persisted descriptor is in any other state,
  the job is set to Cancelled and the error is the invalid-state error for that
  state; when the schema is missing the job is Cancelled with the database-not-exists
  error, and when the schema exists but the table is missing the job is Cancelled
  with the table-not-exists error.
\<close>

theorem getTableInfo_public_only:
  "(snd (snd (getTableInfo t job)) = Inr tbl \<longleftrightarrow>
      healthy 1 t \<and> tableOf t (SchemaID job) (TableID job) = Some tbl \<and>
      State tbl = StatePublic) \<and>
   (snd (snd (getTableInfo t job)) = Inr tbl \<longrightarrow> fst (snd (getTableInfo t job)) = job) \<and>
   (healthy 1 t \<and> tableOf t (SchemaID job) (TableID job) = Some tbl \<and>
      State tbl \<noteq> StatePublic \<longrightarrow>
      snd (getTableInfo t job) =
        (job\<lparr>JState := JobCancelled\<rparr>, Inl (ErrInvalidTableState (State tbl)))) \<and>
   (healthy 1 t \<and> Schemas t (SchemaID job) = None \<longrightarrow>
      snd (getTableInfo t job) = (job\<lparr>JState := JobCancelled\<rparr>, Inl ErrDatabaseNotExists)) \<and>
   (healthy 1 t \<and> Schemas t (SchemaID job) \<noteq> None \<and>
      tableOf t (SchemaID job) (TableID job) = None \<longrightarrow>
      snd (getTableInfo t job) = (job\<lparr>JState := JobCancelled\<rparr>, Inl ErrTableNotExists))"
  by (auto simp: getTableInfo_def healthy_def tableOf_def nextFault_def GetTable_def
      split: list.splits option.splits if_splits)

text \<open>The four cases on the sample store: the Public table, the same table in state
  WriteOnly, a missing schema, a missing table.\<close>

theorem getTableInfo_public_only_witness:
  "snd (getTableInfo exMeta (exJob ArgsOther)) = (exJob ArgsOther, Inr exTable) \<and>
   snd (getTableInfo (exMeta\<lparr>Schemas := [5 \<mapsto> [exTable\<lparr>State := StateWriteOnly\<rparr>]]\<rparr>)
          (exJob ArgsOther)) =
     ((exJob ArgsOther)\<lparr>JState := JobCancelled\<rparr>, Inl (ErrInvalidTableState StateWriteOnly)) \<and>
   snd (getTableInfo (exMeta\<lparr>Schemas := Map.empty\<rparr>) (exJob ArgsOther)) =
     ((exJob ArgsOther)\<lparr>JState := JobCancelled\<rparr>, Inl ErrDatabaseNotExists) \<and>
   snd (getTableInfo (exMeta\<lparr>Schemas := [5 \<mapsto> []]\<rparr>) (exJob ArgsOther)) =
     ((exJob ArgsOther)\<lparr>JState := JobCancelled\<rparr>, Inl ErrTableNotExists)"
proof -
  have a: "healthy 1 exMeta \<and> tableOf exMeta (SchemaID (exJob ArgsOther))
             (TableID (exJob ArgsOther)) = Some exTable \<and> State exTable = StatePublic"
    by (simp add: healthy_def exMeta_def exJob_def exTable_def tableOf_def)
  have b: "healthy 1 (exMeta\<lparr>Schemas := [5 \<mapsto> [exTable\<lparr>State := StateWriteOnly\<rparr>]]\<rparr>) \<and>
           tableOf (exMeta\<lparr>Schemas := [5 \<mapsto> [exTable\<lparr>State := StateWriteOnly\<rparr>]]\<rparr>)
             (SchemaID (exJob ArgsOther)) (TableID (exJob ArgsOther)) =
             Some (exTable\<lparr>State := StateWriteOnly\<rparr>) \<and>
           State (exTable\<lparr>State := StateWriteOnly\<rparr>) \<noteq> StatePublic"
    by (simp add: healthy_def exMeta_def exJob_def exTable_def tableOf_def)
  have c: "healthy 1 (exMeta\<lparr>Schemas := Map.empty\<rparr>) \<and>
           Schemas (exMeta\<lparr>Schemas := Map.empty\<rparr>) (SchemaID (exJob ArgsOther)) = None"
    by (simp add: healthy_def exMeta_def)
  have d: "healthy 1 (exMeta\<lparr>Schemas := [5 \<mapsto> []]\<rparr>) \<and>
           Schemas (exMeta\<lparr>Schemas := [5 \<mapsto> []]\<rparr>) (SchemaID (exJob ArgsOther)) \<noteq> None \<and>
           tableOf (exMeta\<lparr>Schemas := [5 \<mapsto> []]\<rparr>) (SchemaID (exJob ArgsOther))
             (TableID (exJob ArgsOther)) = None"
    by (simp add: healthy_def exMeta_def exJob_def tableOf_def)
  show ?thesis
    using getTableInfo_public_only[of exMeta "exJob ArgsOther" exTable] a
      getTableInfo_public_only[of "exMeta\<lparr>Schemas := [5 \<mapsto> [exTable\<lparr>State := StateWriteOnly\<rparr>]]\<rparr>"
        "exJob ArgsOther" "exTable\<lparr>State := StateWriteOnly\<rparr>"] b
      getTableInfo_public_only[of "exMeta\<lparr>Schemas := Map.empty\<rparr>" "exJob ArgsOther" exTable] c
      getTableInfo_public_only[of "exMeta\<lparr>Schemas := [5 \<mapsto> []]\<rparr>" "exJob ArgsOther" exTable] d
    by (simp add: prod_eq_iff)
qed

section \<open>The create handler\<close>

lemma ListTables_healthy:
  assumes "healthy (Suc n) t"
  shows "snd (ListTables t db) =
           (case Schemas t db of None \<Rightarrow> Inl MetaErrDBNotExists | Some tbls \<Rightarrow> Inr tbls) \<and>
         healthy n (fst (ListTables t db)) \<and> Schemas (fst (ListTables t db)) = Schemas t \<and>
         SchemaVersion (fst (ListTables t db)) = SchemaVersion t"
  using assms
  by (cases "Faults t") (auto simp: ListTables_def nextFault_def healthy_def split: option.splits)

lemma updateSchemaVersion_healthy:
  assumes "healthy (Suc n) t"
  shows "snd (updateSchemaVersion t job) = Inr (SchemaVersion t + 1) \<and>
         healthy n (fst (updateSchemaVersion t job)) \<and>
         Schemas (fst (updateSchemaVersion t job)) = Schemas t \<and>
         SchemaVersion (fst (updateSchemaVersion t job)) = SchemaVersion t + 1"
  using assms
  by (cases "Faults t") (auto simp: updateSchemaVersion_def nextFault_def healthy_def)

text \<open>The loop over the listed tables: what it returns.\<close>

lemma checkTables_conflict:
  "tbl \<in> set tables \<Longrightarrow> CIStr_L (Name tbl) = CIStr_L (Name cur) \<Longrightarrow> ID tbl \<noteq> ID cur \<Longrightarrow>
   checkTables tables cur = Inl ErrTableExists"
  by (induction tables arbitrary: cur) auto

lemma checkTables_Inr:
  "checkTables tables cur = Inr r \<Longrightarrow>
   (r = cur \<or> r \<in> set tables) \<and> CIStr_L (Name r) = CIStr_L (Name cur) \<and> ID r = ID cur"
  by (induction tables arbitrary: cur) (auto split: if_splits)

lemma checkTables_resume:
  "\<forall>tb\<in>set tables. CIStr_L (Name tb) = CIStr_L (Name cur) \<longrightarrow> ID tb = ID cur \<Longrightarrow>
   \<exists>r. checkTables tables cur = Inr r \<and>
       ((\<exists>tb\<in>set tables. CIStr_L (Name tb) = CIStr_L (Name cur)) \<longrightarrow> r \<in> set tables)"
proof (induction tables arbitrary: cur)
  case Nil
  then show ?case by simp
next
  case (Cons x xs)
  show ?case
  proof (cases "CIStr_L (Name x) = CIStr_L (Name cur)")
    case True
    then have idx: "ID x = ID cur" using Cons.prems by simp
    have "\<forall>tb\<in>set xs. CIStr_L (Name tb) = CIStr_L (Name x) \<longrightarrow> ID tb = ID x"
      using Cons.prems True idx by simp
    from Cons.IH[OF this] obtain r where
      r: "checkTables xs x = Inr r" by blast
    from checkTables_Inr[OF r] have "r = x \<or> r \<in> set xs" by simp
    then show ?thesis using True idx r by auto
  next
    case False
    have "\<forall>tb\<in>set xs. CIStr_L (Name tb) = CIStr_L (Name cur) \<longrightarrow> ID tb = ID cur"
      using Cons.prems by simp
    from Cons.IH[OF this] show ?thesis using False by auto
  qed
qed

lemma checkTables_only:
  assumes "tbl \<in> set tables" and "CIStr_L (Name tbl) = CIStr_L (Name cur)" and "ID tbl = ID cur"
    and only: "\<forall>tb\<in>set tables. CIStr_L (Name tb) = nm \<longrightarrow> tb = tbl"
    and nm: "CIStr_L (Name cur) = nm"
  shows "checkTables tables cur = Inr tbl"
proof -
  have "\<forall>tb\<in>set tables. CIStr_L (Name tb) = CIStr_L (Name cur) \<longrightarrow> ID tb = ID cur"
    using only assms(3) nm by blast
  from checkTables_resume[OF this] obtain r where
    r: "checkTables tables cur = Inr r" and
    mem: "(\<exists>tb\<in>set tables. CIStr_L (Name tb) = CIStr_L (Name cur)) \<longrightarrow> r \<in> set tables"
    by blast
  have "r \<in> set tables" using mem assms(1,2) by blast
  have nm': "CIStr_L (Name r) = nm" using checkTables_Inr[OF r] nm by simp
  have "r = tbl" using only \<open>r \<in> set tables\<close> nm' by blast
  then show ?thesis using r by simp
qed

lemma find_in_set: "r \<in> set tables \<Longrightarrow> find (\<lambda>tb. ID tb = ID r) tables \<noteq> None"
  by (auto simp: find_None_iff)

text \<open>What a successful invocation of the create handler went through.\<close>

lemma onCreateTable_None_inv:
  assumes "onCreateTable t job = (t', job', None)"
  shows "\<exists>arg t1 tables r t2 ver.
     DecodeArgs_TableInfo job = Inr arg \<and>
     ListTables t (SchemaID job) = (t1, Inr tables) \<and>
     checkTables tables (arg\<lparr>State := StateNone\<rparr>) = Inr r \<and>
     updateSchemaVersion t1 job = (t2, Inr ver) \<and> State r = StateNone \<and>
     CreateTable t2 (SchemaID job) (r\<lparr>State := StatePublic\<rparr>) = (t', None) \<and>
     job' = addTableHistoryInfo (job\<lparr>SchemaState := StatePublic, JState := JobDone\<rparr>) ver
              (r\<lparr>State := StatePublic\<rparr>)"
  using assms
  by (auto simp: onCreateTable_def Let_def
      split: sum.splits prod.splits if_splits option.splits SchemaState.splits)

lemma DecodeArgs_TableInfo_Inr:
  "DecodeArgs_TableInfo job = Inr arg \<longleftrightarrow> Args job = ArgsTableInfo arg"
  by (auto simp: DecodeArgs_TableInfo_def split: JobArgs.splits)

lemma onCreateTable_done:
  assumes "onCreateTable t job = (t', job', None)"
  shows "\<exists>arg. Args job = ArgsTableInfo arg \<and>
           tableOf t' (SchemaID job) (ID arg) = Some (arg\<lparr>State := StatePublic\<rparr>) \<and>
           tableOf t (SchemaID job) (ID arg) = None \<and>
           SchemaVersion t' = SchemaVersion t + 1 \<and>
           job' = job\<lparr>SchemaState := StatePublic, JState := JobDone,
                    History := History job @
                      [\<lparr>HVersion = SchemaVersion t + 1, HJobID = JobID job,
                        HTable = arg\<lparr>State := StatePublic\<rparr>\<rparr>]\<rparr>"
proof -
  from onCreateTable_None_inv[OF assms] obtain arg t1 tables r t2 ver where
    dec: "DecodeArgs_TableInfo job = Inr arg" and
    lst: "ListTables t (SchemaID job) = (t1, Inr tables)" and
    chk: "checkTables tables (arg\<lparr>State := StateNone\<rparr>) = Inr r" and
    upd: "updateSchemaVersion t1 job = (t2, Inr ver)" and
    cre: "CreateTable t2 (SchemaID job) (r\<lparr>State := StatePublic\<rparr>) = (t', None)" and
    job': "job' = addTableHistoryInfo (job\<lparr>SchemaState := StatePublic, JState := JobDone\<rparr>) ver
              (r\<lparr>State := StatePublic\<rparr>)"
    by blast
  from ListTables_Inr[OF lst] have l: "Schemas t (SchemaID job) = Some tables"
    "Schemas t1 = Schemas t" "SchemaVersion t1 = SchemaVersion t" by simp_all
  from updateSchemaVersion_Inr[OF upd] have u: "ver = SchemaVersion t + 1"
    "SchemaVersion t2 = SchemaVersion t + 1" "Schemas t2 = Schemas t" using l by simp_all
  from CreateTable_None[OF cre] have c:
    "tableOf t' (SchemaID job) (ID r) = Some (r\<lparr>State := StatePublic\<rparr>)"
    "tableOf t2 (SchemaID job) (ID r) = None" "SchemaVersion t' = SchemaVersion t2" by simp_all
  have "find (\<lambda>tb. ID tb = ID r) tables = None"
    using c(2) u(3) l(1) by (simp add: tableOf_def)
  then have "r \<notin> set tables" using find_in_set by blast
  then have r: "r = arg\<lparr>State := StateNone\<rparr>" using checkTables_Inr[OF chk] by blast
  have "tableOf t (SchemaID job) (ID arg) = None"
    using c(2) u(3) r by (simp add: tableOf_def)
  then show ?thesis
    using dec c u r job' by (simp add: DecodeArgs_TableInfo_Inr addTableHistoryInfo_def)
qed

text \<open>
  Claim C4. When the create handler returns without error, the descriptor persisted
  under the candidate's identifier is the candidate in state Public, the schema
  version is the old one plus one, exactly one history entry (that version, the
  job's identifier, the persisted descriptor) is appended, the job's visibility
  sub-state is Public and its outcome is Done.
\<close>

theorem onCreateTable_success:
  assumes "onCreateTable t job = (t', job', None)"
  shows "\<exists>arg. Args job = ArgsTableInfo arg \<and>
           tableOf t' (SchemaID job) (ID arg) = Some (arg\<lparr>State := StatePublic\<rparr>) \<and>
           SchemaVersion t' = SchemaVersion t + 1 \<and>
           History job' = History job @
                      [\<lparr>HVersion = SchemaVersion t + 1, HJobID = JobID job,
                        HTable = arg\<lparr>State := StatePublic\<rparr>\<rparr>] \<and>
           SchemaState job' = StatePublic \<and> JState job' = JobDone"
  using onCreateTable_done[OF assms] by auto

text \<open>The spec's scenario: schema 5 has no tables, the job creates table 10 named
  \<open>t\<close>; the version goes from 7 to 8.\<close>

theorem onCreateTable_success_witness:
  "onCreateTable (exMeta\<lparr>Schemas := [5 \<mapsto> []]\<rparr>) (exJob (ArgsTableInfo exTable)) =
     (exMeta\<lparr>SchemaVersion := 8\<rparr>,
      (exJob (ArgsTableInfo exTable))\<lparr>SchemaState := StatePublic, JState := JobDone,
         History := [\<lparr>HVersion = 8, HJobID = 1, HTable = exTable\<rparr>]\<rparr>,
      None) \<and>
   tableOf (exMeta\<lparr>SchemaVersion := 8\<rparr>) 5 10 = Some exTable \<and>
   State exTable = StatePublic \<and>
   SchemaVersion (exMeta\<lparr>SchemaVersion := 8\<rparr>) =
     SchemaVersion (exMeta\<lparr>Schemas := [5 \<mapsto> []]\<rparr>) + 1"
proof -
  have r: "onCreateTable (exMeta\<lparr>Schemas := [5 \<mapsto> []]\<rparr>) (exJob (ArgsTableInfo exTable)) =
     (exMeta\<lparr>SchemaVersion := 8\<rparr>,
      (exJob (ArgsTableInfo exTable))\<lparr>SchemaState := StatePublic, JState := JobDone,
         History := [\<lparr>HVersion = 8, HJobID = 1, HTable = exTable\<rparr>]\<rparr>,
      None)"
    by (simp add: exMeta_def exTable_def exJob_def onCreateTable_def DecodeArgs_TableInfo_def
          nextFault_def ListTables_def updateSchemaVersion_def CreateTable_def
          addTableHistoryInfo_def Let_def)
  show ?thesis
    using onCreateTable_success[OF r] r by (simp add: exJob_def exTable_def)
qed

text \<open>
  Claim C5. When the listing of the job's schema goes through and some listed table
  has the candidate's case-normalized name and another identifier, the create
  handler sets the job's outcome to Cancelled, returns the table-exists error, and
  leaves the persisted descriptors and the schema version as they were.
\<close>

theorem onCreateTable_name_collision:
  assumes "Args job = ArgsTableInfo arg" and "healthy 1 t"
    and "Schemas t (SchemaID job) = Some tables"
    and "tbl \<in> set tables" and "CIStr_L (Name tbl) = CIStr_L (Name arg)" and "ID tbl \<noteq> ID arg"
  shows "snd (onCreateTable t job) = (job\<lparr>JState := JobCancelled\<rparr>, Some ErrTableExists) \<and>
         Schemas (fst (onCreateTable t job)) = Schemas t \<and>
         SchemaVersion (fst (onCreateTable t job)) = SchemaVersion t"
proof -
  have h: "healthy (Suc 0) t" using assms(2) by simp
  obtain t1 r1 where l0: "ListTables t (SchemaID job) = (t1, r1)"
    by (cases "ListTables t (SchemaID job)")
  have l: "r1 = Inr tables" "Schemas t1 = Schemas t" "SchemaVersion t1 = SchemaVersion t"
    using ListTables_healthy[OF h, of "SchemaID job"] assms(3) l0 by simp_all
  have c: "checkTables tables (arg\<lparr>State := StateNone\<rparr>) = Inl ErrTableExists"
    using assms(4-6) by (intro checkTables_conflict[of tbl]) simp_all
  show ?thesis
    using assms(1) l(2,3)
    by (simp add: onCreateTable_def DecodeArgs_TableInfo_def l0 l(1) c)
qed

text \<open>The spec's scenario: table 10 named \<open>t\<close> exists, the job creates table 11
  named \<open>t\<close>.\<close>

theorem onCreateTable_name_collision_witness:
  "snd (onCreateTable exMeta (exJob (ArgsTableInfo (exTable\<lparr>ID := 11\<rparr>)))) =
     ((exJob (ArgsTableInfo (exTable\<lparr>ID := 11\<rparr>)))\<lparr>JState := JobCancelled\<rparr>,
      Some ErrTableExists) \<and>
   Schemas (fst (onCreateTable exMeta (exJob (ArgsTableInfo (exTable\<lparr>ID := 11\<rparr>))))) =
     Schemas exMeta \<and>
   SchemaVersion (fst (onCreateTable exMeta (exJob (ArgsTableInfo (exTable\<lparr>ID := 11\<rparr>))))) =
     SchemaVersion exMeta"
proof -
  have a: "Args (exJob (ArgsTableInfo (exTable\<lparr>ID := 11\<rparr>))) = ArgsTableInfo (exTable\<lparr>ID := 11\<rparr>)"
    by (simp add: exJob_def)
  have h: "healthy 1 exMeta" by (simp add: healthy_def exMeta_def)
  have l: "Schemas exMeta (SchemaID (exJob (ArgsTableInfo (exTable\<lparr>ID := 11\<rparr>)))) = Some [exTable]"
    by (simp add: exMeta_def exJob_def)
  have m: "exTable \<in> set [exTable]" by simp
  have n: "CIStr_L (Name exTable) = CIStr_L (Name (exTable\<lparr>ID := 11\<rparr>))" by simp
  have i: "ID exTable \<noteq> ID (exTable\<lparr>ID := 11\<rparr>)" by (simp add: exTable_def)
  show ?thesis by (rule onCreateTable_name_collision[OF a h l m n i])
qed

text \<open>
  Claim C2, as stated, fails: a create job whose descriptor has the name and the
  identifier of the Public table of the sample store is not completed. The handler
  takes up the existing descriptor, finds its state Public, and returns the
  invalid-state error; the job's outcome stays Running.
\<close>

theorem onCreateTable_resubmit_counterexample:
  "tableOf exMeta 5 10 = Some exTable \<and> State exTable = StatePublic \<and>
   Args (exJob (ArgsTableInfo exTable)) = ArgsTableInfo exTable \<and>
   JState (exJob (ArgsTableInfo exTable)) = JobRunning \<and>
   onCreateTable exMeta (exJob (ArgsTableInfo exTable)) =
     (exMeta\<lparr>SchemaVersion := 8\<rparr>, exJob (ArgsTableInfo exTable),
      Some (ErrInvalidTableState StatePublic))"
  by (simp add: exMeta_def exTable_def exJob_def tableOf_def onCreateTable_def
        DecodeArgs_TableInfo_def nextFault_def ListTables_def updateSchemaVersion_def)

text \<open>
  Claim C2, amended. When the listing and the version bump go through and the only
  listed table with the candidate's case-normalized name has the candidate's
  identifier, the create handler continues with that existing descriptor; when its
  state is not None (in particular when it is Public) the handler returns the
  invalid-state error for that state, leaves the job as it was (so its outcome is
  neither Done nor Cancelled and no history entry is appended), and leaves the
  persisted descriptors as they were.
\<close>

theorem onCreateTable_resumes_existing:
  assumes "Args job = ArgsTableInfo arg" and "healthy 2 t"
    and "Schemas t (SchemaID job) = Some tables"
    and "tbl \<in> set tables"
    and "CIStr_L (Name tbl) = CIStr_L (Name arg)" and "ID tbl = ID arg"
    and "\<forall>tb\<in>set tables. CIStr_L (Name tb) = CIStr_L (Name arg) \<longrightarrow> tb = tbl"
    and "State tbl \<noteq> StateNone"
  shows "snd (onCreateTable t job) = (job, Some (ErrInvalidTableState (State tbl))) \<and>
         Schemas (fst (onCreateTable t job)) = Schemas t"
proof -
  have h2: "healthy (Suc (Suc 0)) t" using assms(2) by (simp add: numeral_2_eq_2)
  obtain t1 r1 where l0: "ListTables t (SchemaID job) = (t1, r1)" by (cases "ListTables t (SchemaID job)")
  have l: "r1 = Inr tables" "healthy (Suc 0) t1" "Schemas t1 = Schemas t"
    using ListTables_healthy[OF h2, of "SchemaID job"] assms(3) l0 by simp_all
  obtain t2 r2 where u0: "updateSchemaVersion t1 job = (t2, r2)" by (cases "updateSchemaVersion t1 job")
  have u: "r2 = Inr (SchemaVersion t1 + 1)" "Schemas t2 = Schemas t1"
    using updateSchemaVersion_healthy[OF l(2), of job] u0 by simp_all
  have c: "checkTables tables (arg\<lparr>State := StateNone\<rparr>) = Inr tbl"
    by (rule checkTables_only[OF assms(4) _ _ assms(7)]) (simp_all add: assms(5,6))
  have d: "DecodeArgs_TableInfo job = Inr arg" using assms(1) by (simp add: DecodeArgs_TableInfo_def)
  show ?thesis
    using assms(8) l(3) u(2)
    by (cases "State tbl") (simp_all add: onCreateTable_def d l0 l(1) u0 u(1) c)
qed

theorem onCreateTable_resumes_existing_witness:
  "snd (onCreateTable exMeta (exJob (ArgsTableInfo exTable))) =
     (exJob (ArgsTableInfo exTable), Some (ErrInvalidTableState (State exTable))) \<and>
   Schemas (fst (onCreateTable exMeta (exJob (ArgsTableInfo exTable)))) = Schemas exMeta"
proof -
  have a: "Args (exJob (ArgsTableInfo exTable)) = ArgsTableInfo exTable"
    by (simp add: exJob_def)
  have h: "healthy 2 exMeta" by (simp add: healthy_def exMeta_def)
  have l: "Schemas exMeta (SchemaID (exJob (ArgsTableInfo exTable))) = Some [exTable]"
    by (simp add: exMeta_def exJob_def)
  have m: "exTable \<in> set [exTable]" by simp
  have n: "CIStr_L (Name exTable) = CIStr_L (Name exTable)" by simp
  have i: "ID exTable = ID exTable" by simp
  have o: "\<forall>tb\<in>set [exTable]. CIStr_L (Name tb) = CIStr_L (Name exTable) \<longrightarrow> tb = exTable"
    by simp
  have p: "State exTable \<noteq> StateNone" by (simp add: exTable_def)
  show ?thesis by (rule onCreateTable_resumes_existing[OF a h l m n i o p])
qed

section \<open>The truncate handler\<close>

lemma tableOf_Schemas: "Schemas t1 = Schemas t \<Longrightarrow> tableOf t1 = tableOf t"
  by (simp add: tableOf_def fun_eq_iff)

lemma onTruncateTable_None_inv:
  assumes "onTruncateTable t job = (t', job', None)"
  shows "\<exists>newID t1 tbl t2 t3 ver.
     DecodeArgs_int64 job = Inr newID \<and>
     GetTable t (SchemaID job) (TableID job) = (t1, Inr (Some tbl)) \<and>
     DropTable t1 (SchemaID job) (TableID job) = (t2, None) \<and>
     CreateTable t2 (SchemaID job) (tbl\<lparr>ID := newID\<rparr>) = (t3, None) \<and>
     updateSchemaVersion t3 job = (t', Inr ver) \<and>
     job' = addTableHistoryInfo (job\<lparr>JState := JobDone\<rparr>) ver (tbl\<lparr>ID := newID\<rparr>)"
  using assms
  by (auto simp: onTruncateTable_def Let_def
      split: sum.splits prod.splits if_splits option.splits)

lemma DecodeArgs_int64_Inr:
  "DecodeArgs_int64 job = Inr newID \<longleftrightarrow> Args job = ArgsTableID newID"
  by (auto simp: DecodeArgs_int64_def split: JobArgs.splits)

lemma onTruncateTable_done:
  assumes "onTruncateTable t job = (t', job', None)"
  shows "\<exists>newID tbl. Args job = ArgsTableID newID \<and>
           tableOf t (SchemaID job) (TableID job) = Some tbl \<and>
           tableOf t' (SchemaID job) newID = Some (tbl\<lparr>ID := newID\<rparr>) \<and>
           (newID \<noteq> TableID job \<longrightarrow> tableOf t' (SchemaID job) (TableID job) = None) \<and>
           SchemaVersion t' = SchemaVersion t + 1 \<and>
           job' = job\<lparr>JState := JobDone,
                    History := History job @
                      [\<lparr>HVersion = SchemaVersion t + 1, HJobID = JobID job,
                        HTable = tbl\<lparr>ID := newID\<rparr>\<rparr>]\<rparr>"
proof -
  from onTruncateTable_None_inv[OF assms] obtain newID t1 tbl t2 t3 ver where
    dec: "DecodeArgs_int64 job = Inr newID" and
    get: "GetTable t (SchemaID job) (TableID job) = (t1, Inr (Some tbl))" and
    drp: "DropTable t1 (SchemaID job) (TableID job) = (t2, None)" and
    cre: "CreateTable t2 (SchemaID job) (tbl\<lparr>ID := newID\<rparr>) = (t3, None)" and
    upd: "updateSchemaVersion t3 job = (t', Inr ver)" and
    job': "job' = addTableHistoryInfo (job\<lparr>JState := JobDone\<rparr>) ver (tbl\<lparr>ID := newID\<rparr>)"
    by blast
  from GetTable_Inr[OF get] have g: "tableOf t (SchemaID job) (TableID job) = Some tbl"
    "SchemaVersion t1 = SchemaVersion t" by simp_all
  from DropTable_None[OF drp] have d: "SchemaVersion t2 = SchemaVersion t1" by simp
  from CreateTable_None[OF cre] have c:
    "tableOf t3 (SchemaID job) newID = Some (tbl\<lparr>ID := newID\<rparr>)"
    "SchemaVersion t3 = SchemaVersion t2"
    "\<forall>j. j \<noteq> newID \<longrightarrow> tableOf t3 (SchemaID job) j = tableOf t2 (SchemaID job) j"
    by simp_all
  from updateSchemaVersion_Inr[OF upd] have u: "ver = SchemaVersion t3 + 1"
    "SchemaVersion t' = SchemaVersion t3 + 1" "tableOf t' = tableOf t3"
    using tableOf_Schemas[of t' t3] by simp_all
  have gone: "newID \<noteq> TableID job \<longrightarrow> tableOf t' (SchemaID job) (TableID job) = None"
    using c(3) DropTable_None[OF drp] u(3) by simp
  show ?thesis
    using dec g d c(1,2) u gone job'
    by (simp add: DecodeArgs_int64_Inr addTableHistoryInfo_def)
qed

lemma find_None_kept:
  "find (\<lambda>tb. ID tb = j) tbls = None \<Longrightarrow> find (\<lambda>tb. ID tb = j) (filter (\<lambda>tb. ID tb \<noteq> i) tbls) = None"
  by (induction tbls) (auto split: if_splits)

lemma onTruncateTable_healthy:
  assumes "Faults t = []" and "Args job = ArgsTableID newID"
    and "tableOf t (SchemaID job) (TableID job) = Some tbl"
    and "newID = TableID job \<or> tableOf t (SchemaID job) newID = None"
  shows "snd (snd (onTruncateTable t job)) = None"
  using assms
  by (auto simp: onTruncateTable_def DecodeArgs_int64_def tableOf_def nextFault_def GetTable_def
        DropTable_def CreateTable_def updateSchemaVersion_def find_removed find_None_kept Let_def
      split: option.splits)

lemma GetTable_Inl:
  "GetTable t db i = (t1, Inl e) \<Longrightarrow> e = MetaErrDBNotExists \<or> (\<exists>c. e = ErrStore c)"
  by (auto simp: GetTable_def nextFault_def split: list.splits option.splits)

lemma DropTable_Some:
  "DropTable t db i = (t1, Some e) \<Longrightarrow>
   e = MetaErrDBNotExists \<or> e = MetaErrTableNotExists \<or> (\<exists>c. e = ErrStore c)"
  by (auto simp: DropTable_def nextFault_def split: list.splits option.splits)

lemma CreateTable_Some:
  "CreateTable t db tbl = (t1, Some e) \<Longrightarrow>
   e = MetaErrDBNotExists \<or> e = MetaErrTableExists \<or> (\<exists>c. e = ErrStore c)"
  by (auto simp: CreateTable_def nextFault_def split: list.splits option.splits)

lemma updateSchemaVersion_Inl:
  "updateSchemaVersion t job = (t1, Inl e) \<Longrightarrow> (\<exists>c. e = ErrStore c)"
  by (auto simp: updateSchemaVersion_def nextFault_def split: list.splits option.splits)

lemma DecodeArgs_int64_Inl: "DecodeArgs_int64 job = Inl e \<Longrightarrow> e = ErrDecodeArgs"
  by (auto simp: DecodeArgs_int64_def split: JobArgs.splits)

lemma onTruncateTable_no_state_error:
  "snd (snd (onTruncateTable t job)) \<noteq> Some (ErrInvalidTableState s)"
  by (auto simp: onTruncateTable_def Let_def
      dest!: GetTable_Inl DropTable_Some CreateTable_Some updateSchemaVersion_Inl DecodeArgs_int64_Inl
      split: sum.splits prod.splits option.splits if_splits)


lemmas run_defs = exMeta_def exTable_def exJob_def tableOf_def healthy_def
  onCreateTable_def onDropTable_def onTruncateTable_def
  DecodeArgs_TableInfo_def DecodeArgs_int64_def nextFault_def ListTables_def GetTable_def
  CreateTable_def UpdateTable_def DropTable_def updateSchemaVersion_def
  addTableHistoryInfo_def Let_def

text \<open>
  Claim C6, as stated, fails in two ways. Truncating a table whose descriptor is in
  state WriteOnly completes with outcome Done and leaves the new descriptor in state
  WriteOnly, not Public; and when the decoded new identifier equals the old one the
  handler completes with outcome Done and the descriptor is still found under the
  old identifier.
\<close>

theorem onTruncateTable_rebinds_counterexample:
  "snd (snd (onTruncateTable (exMeta\<lparr>Schemas := [5 \<mapsto> [exTable\<lparr>State := StateWriteOnly\<rparr>]]\<rparr>)
               (exJob (ArgsTableID 20)))) = None \<and>
   JState (fst (snd (onTruncateTable
               (exMeta\<lparr>Schemas := [5 \<mapsto> [exTable\<lparr>State := StateWriteOnly\<rparr>]]\<rparr>)
               (exJob (ArgsTableID 20))))) = JobDone \<and>
   tableOf (fst (onTruncateTable (exMeta\<lparr>Schemas := [5 \<mapsto> [exTable\<lparr>State := StateWriteOnly\<rparr>]]\<rparr>)
               (exJob (ArgsTableID 20)))) 5 20 =
     Some (exTable\<lparr>ID := 20, State := StateWriteOnly\<rparr>) \<and>
   snd (snd (onTruncateTable exMeta (exJob (ArgsTableID 10)))) = None \<and>
   JState (fst (snd (onTruncateTable exMeta (exJob (ArgsTableID 10))))) = JobDone \<and>
   tableOf (fst (onTruncateTable exMeta (exJob (ArgsTableID 10)))) 5 10 = Some exTable"
  by (simp add: run_defs)

text \<open>
  Claim C6, amended. For a truncate job on a table whose persisted descriptor is
  Public, with a decoded new identifier different from the old one: when the handler
  returns without error the job's outcome is Done, no descriptor is persisted under
  (schema, old identifier), the descriptor persisted under (schema, new identifier)
  is the old one with only the identifier replaced (same name, columns and indices,
  state Public), and the schema version is the old one plus one.
\<close>

theorem onTruncateTable_rebinds:
  assumes "tableOf t (SchemaID job) (TableID job) = Some tbl" and "State tbl = StatePublic"
    and "Args job = ArgsTableID newID" and "newID \<noteq> TableID job"
    and "onTruncateTable t job = (t', job', None)"
  shows "JState job' = JobDone \<and>
         tableOf t' (SchemaID job) (TableID job) = None \<and>
         tableOf t' (SchemaID job) newID = Some (tbl\<lparr>ID := newID\<rparr>) \<and>
         Name (tbl\<lparr>ID := newID\<rparr>) = Name tbl \<and>
         Columns (tbl\<lparr>ID := newID\<rparr>) = Columns tbl \<and>
         Indices (tbl\<lparr>ID := newID\<rparr>) = Indices tbl \<and>
         State (tbl\<lparr>ID := newID\<rparr>) = StatePublic \<and>
         SchemaVersion t' = SchemaVersion t + 1"
  using onTruncateTable_done[OF assms(5)] assms(1-4) by auto

theorem onTruncateTable_rebinds_witness:
  "tableOf exMeta 5 10 = Some exTable \<and>
   onTruncateTable exMeta (exJob (ArgsTableID 20)) =
     (exMeta\<lparr>Schemas := [5 \<mapsto> [exTable\<lparr>ID := 20\<rparr>]], SchemaVersion := 8\<rparr>,
      (exJob (ArgsTableID 20))\<lparr>JState := JobDone,
         History := [\<lparr>HVersion = 8, HJobID = 1, HTable = exTable\<lparr>ID := 20\<rparr>\<rparr>]\<rparr>,
      None) \<and>
   tableOf (exMeta\<lparr>Schemas := [5 \<mapsto> [exTable\<lparr>ID := 20\<rparr>]], SchemaVersion := 8\<rparr>) 5 10 = None \<and>
   tableOf (exMeta\<lparr>Schemas := [5 \<mapsto> [exTable\<lparr>ID := 20\<rparr>]], SchemaVersion := 8\<rparr>) 5 20 =
     Some (exTable\<lparr>ID := 20\<rparr>) \<and>
   State (exTable\<lparr>ID := 20\<rparr>) = StatePublic"
proof -
  have a: "tableOf exMeta (SchemaID (exJob (ArgsTableID 20))) (TableID (exJob (ArgsTableID 20))) =
             Some exTable"
    by (simp add: run_defs)
  have b: "State exTable = StatePublic" by (simp add: exTable_def)
  have c: "Args (exJob (ArgsTableID 20)) = ArgsTableID 20" by (simp add: exJob_def)
  have d: "(20::int) \<noteq> TableID (exJob (ArgsTableID 20))" by (simp add: exJob_def)
  have r: "onTruncateTable exMeta (exJob (ArgsTableID 20)) =
     (exMeta\<lparr>Schemas := [5 \<mapsto> [exTable\<lparr>ID := 20\<rparr>]], SchemaVersion := 8\<rparr>,
      (exJob (ArgsTableID 20))\<lparr>JState := JobDone,
         History := [\<lparr>HVersion = 8, HJobID = 1, HTable = exTable\<lparr>ID := 20\<rparr>\<rparr>]\<rparr>,
      None)"
    by (simp add: run_defs)
  show ?thesis
    using onTruncateTable_rebinds[OF a b c d r] a r by (simp add: exJob_def)
qed

text \<open>
  Claim C10. The truncate handler never looks at the visibility state of the old
  descriptor: whatever that state is, the handler never returns the invalid-state
  error; on a healthy store it returns without error as soon as the new identifier
  is free (or is the old one); and whenever it returns without error, the
  descriptor persisted under the new identifier is the old descriptor with the
  identifier replaced and every other field, the visibility state included, as it
  was.
\<close>

theorem onTruncateTable_keeps_state:
  assumes "tableOf t (SchemaID job) (TableID job) = Some tbl" and "Args job = ArgsTableID newID"
  shows "snd (snd (onTruncateTable t job)) \<noteq> Some (ErrInvalidTableState s) \<and>
         (Faults t = [] \<and> (newID = TableID job \<or> tableOf t (SchemaID job) newID = None) \<longrightarrow>
            snd (snd (onTruncateTable t job)) = None) \<and>
         (snd (snd (onTruncateTable t job)) = None \<longrightarrow>
            tableOf (fst (onTruncateTable t job)) (SchemaID job) newID = Some (tbl\<lparr>ID := newID\<rparr>))"
proof -
  have 1: "snd (snd (onTruncateTable t job)) \<noteq> Some (ErrInvalidTableState s)"
    by (rule onTruncateTable_no_state_error)
  have 2: "Faults t = [] \<and> (newID = TableID job \<or> tableOf t (SchemaID job) newID = None) \<longrightarrow>
            snd (snd (onTruncateTable t job)) = None"
    using onTruncateTable_healthy[OF _ assms(2) assms(1)] by blast
  have 3: "snd (snd (onTruncateTable t job)) = None \<longrightarrow>
            tableOf (fst (onTruncateTable t job)) (SchemaID job) newID = Some (tbl\<lparr>ID := newID\<rparr>)"
  proof
    assume n: "snd (snd (onTruncateTable t job)) = None"
    obtain t' job' where r: "onTruncateTable t job = (t', job', None)"
      using n by (cases "onTruncateTable t job") auto
    from onTruncateTable_done[OF r] assms show
      "tableOf (fst (onTruncateTable t job)) (SchemaID job) newID = Some (tbl\<lparr>ID := newID\<rparr>)"
      using r by auto
  qed
  show ?thesis using 1 2 3 by blast
qed

text \<open>A table in state DeleteOnly is truncated, and stays in state DeleteOnly.\<close>

theorem onTruncateTable_keeps_state_witness:
  "snd (snd (onTruncateTable (exMeta\<lparr>Schemas := [5 \<mapsto> [exTable\<lparr>State := StateDeleteOnly\<rparr>]]\<rparr>)
               (exJob (ArgsTableID 20)))) = None \<and>
   tableOf (fst (onTruncateTable (exMeta\<lparr>Schemas := [5 \<mapsto> [exTable\<lparr>State := StateDeleteOnly\<rparr>]]\<rparr>)
               (exJob (ArgsTableID 20)))) (SchemaID (exJob (ArgsTableID 20))) 20 =
     Some (exTable\<lparr>State := StateDeleteOnly, ID := 20\<rparr>)"
proof -
  have a: "tableOf (exMeta\<lparr>Schemas := [5 \<mapsto> [exTable\<lparr>State := StateDeleteOnly\<rparr>]]\<rparr>)
             (SchemaID (exJob (ArgsTableID 20))) (TableID (exJob (ArgsTableID 20))) =
             Some (exTable\<lparr>State := StateDeleteOnly\<rparr>)"
    by (simp add: run_defs)
  have c: "Args (exJob (ArgsTableID 20)) = ArgsTableID 20" by (simp add: exJob_def)
  have h: "Faults (exMeta\<lparr>Schemas := [5 \<mapsto> [exTable\<lparr>State := StateDeleteOnly\<rparr>]]\<rparr>) = [] \<and>
           ((20::int) = TableID (exJob (ArgsTableID 20)) \<or>
            tableOf (exMeta\<lparr>Schemas := [5 \<mapsto> [exTable\<lparr>State := StateDeleteOnly\<rparr>]]\<rparr>)
              (SchemaID (exJob (ArgsTableID 20))) 20 = None)"
    by (simp add: run_defs)
  show ?thesis
    using onTruncateTable_keeps_state[OF a c, of StatePublic] h by blast
qed

section \<open>Version bumps and history entries\<close>

lemma onDropTable_None_inv:
  assumes "onDropTable t job = (t', job', None)"
  shows "\<exists>t1 tbl. GetTable t (SchemaID job) (TableID job) = (t1, Inr (Some tbl)) \<and>
           State tbl \<noteq> StateNone"
  using assms
  by (auto simp: onDropTable_def Let_def
      split: sum.splits prod.splits if_splits option.splits SchemaState.splits)

lemma onDropTable_None_table:
  assumes "onDropTable t job = (t', job', None)"
  shows "\<exists>tbl. tableOf t (SchemaID job) (TableID job) = Some tbl \<and> State tbl \<noteq> StateNone"
proof -
  from onDropTable_None_inv[OF assms] obtain t1 tbl where
    g: "GetTable t (SchemaID job) (TableID job) = (t1, Inr (Some tbl))" and
    s: "State tbl \<noteq> StateNone" by blast
  from GetTable_Inr[OF g] have "tableOf t (SchemaID job) (TableID job) = Some tbl" by simp
  then show ?thesis using s by blast
qed

text \<open>
  Claim C3, as stated, fails: the first transition of a drop (Public to WriteOnly on
  the sample store) is persisted and bumps the schema version from 7 to 8, and no
  history entry is appended in that invocation.
\<close>

theorem onDropTable_no_history_counterexample:
  "onDropTable exMeta (exJob ArgsOther) =
     (exMeta\<lparr>Schemas := [5 \<mapsto> [exTable\<lparr>State := StateWriteOnly\<rparr>]], SchemaVersion := 8\<rparr>,
      (exJob ArgsOther)\<lparr>SchemaState := StateWriteOnly\<rparr>, None) \<and>
   SchemaVersion exMeta = 7 \<and>
   History ((exJob ArgsOther)\<lparr>SchemaState := StateWriteOnly\<rparr>) = History (exJob ArgsOther)"
  by (simp add: run_defs)

text \<open>
  Claim C3, amended. Every invocation of the create, truncate or drop handler that
  returns without error increments the schema version exactly once. Exactly one
  history entry, carrying the new version and the job's identifier, is appended in
  the invocations that complete the job: the create, the truncate, and the last
  transition of a drop (from DeleteOnly to removed). The two earlier transitions
  of a drop append no history entry and leave the job's outcome as it was.
\<close>

theorem version_bump_and_history:
  "(onCreateTable t job = (t', job', None) \<longrightarrow>
      SchemaVersion t' = SchemaVersion t + 1 \<and>
      (\<exists>tb. History job' = History job @
               [\<lparr>HVersion = SchemaVersion t', HJobID = JobID job, HTable = tb\<rparr>])) \<and>
   (onTruncateTable t job = (t', job', None) \<longrightarrow>
      SchemaVersion t' = SchemaVersion t + 1 \<and>
      (\<exists>tb. History job' = History job @
               [\<lparr>HVersion = SchemaVersion t', HJobID = JobID job, HTable = tb\<rparr>])) \<and>
   (onDropTable t job = (t', job', None) \<longrightarrow>
      SchemaVersion t' = SchemaVersion t + 1 \<and>
      (\<exists>tbl. tableOf t (SchemaID job) (TableID job) = Some tbl \<and>
         (State tbl = StateDeleteOnly \<longrightarrow>
            JState job' = JobDone \<and>
            (\<exists>tb. History job' = History job @
               [\<lparr>HVersion = SchemaVersion t', HJobID = JobID job, HTable = tb\<rparr>])) \<and>
         (State tbl \<noteq> StateDeleteOnly \<longrightarrow>
            JState job' = JState job \<and> History job' = History job)))"
proof (intro conjI impI)
  assume r: "onCreateTable t job = (t', job', None)"
  from onCreateTable_done[OF r] show "SchemaVersion t' = SchemaVersion t + 1" by auto
  from onCreateTable_done[OF r] show "\<exists>tb. History job' = History job @
               [\<lparr>HVersion = SchemaVersion t', HJobID = JobID job, HTable = tb\<rparr>]" by auto
next
  assume r: "onTruncateTable t job = (t', job', None)"
  from onTruncateTable_done[OF r] show "SchemaVersion t' = SchemaVersion t + 1" by auto
  from onTruncateTable_done[OF r] show "\<exists>tb. History job' = History job @
               [\<lparr>HVersion = SchemaVersion t', HJobID = JobID job, HTable = tb\<rparr>]" by auto
next
  assume r: "onDropTable t job = (t', job', None)"
  from onDropTable_None_table[OF r] obtain tbl where
    tbl: "tableOf t (SchemaID job) (TableID job) = Some tbl" "State tbl \<noteq> StateNone" by blast
  have v: "SchemaVersion t' = SchemaVersion t + 1"
    using drop_step_public[OF tbl(1) _ r] drop_step_writeonly[OF tbl(1) _ r]
      drop_step_deleteonly[OF tbl(1) _ r] tbl(2) by (cases "State tbl") simp_all
  show "SchemaVersion t' = SchemaVersion t + 1" by (rule v)
  have "(State tbl = StateDeleteOnly \<longrightarrow>
            JState job' = JobDone \<and>
            (\<exists>tb. History job' = History job @
               [\<lparr>HVersion = SchemaVersion t', HJobID = JobID job, HTable = tb\<rparr>])) \<and>
         (State tbl \<noteq> StateDeleteOnly \<longrightarrow>
            JState job' = JState job \<and> History job' = History job)"
    using drop_step_public[OF tbl(1) _ r] drop_step_writeonly[OF tbl(1) _ r]
      drop_step_deleteonly[OF tbl(1) _ r] tbl(2) by (cases "State tbl") simp_all
  then show "\<exists>tbl. tableOf t (SchemaID job) (TableID job) = Some tbl \<and>
         (State tbl = StateDeleteOnly \<longrightarrow>
            JState job' = JobDone \<and>
            (\<exists>tb. History job' = History job @
               [\<lparr>HVersion = SchemaVersion t', HJobID = JobID job, HTable = tb\<rparr>])) \<and>
         (State tbl \<noteq> StateDeleteOnly \<longrightarrow>
            JState job' = JState job \<and> History job' = History job)"
    using tbl(1) by blast
qed

text \<open>One run of each kind on the sample store.\<close>

theorem version_bump_and_history_witness:
  "onCreateTable (exMeta\<lparr>Schemas := [5 \<mapsto> []]\<rparr>) (exJob (ArgsTableInfo exTable)) =
     (exMeta\<lparr>SchemaVersion := 8\<rparr>,
      (exJob (ArgsTableInfo exTable))\<lparr>SchemaState := StatePublic, JState := JobDone,
         History := [\<lparr>HVersion = 8, HJobID = 1, HTable = exTable\<rparr>]\<rparr>,
      None) \<and>
   onTruncateTable exMeta (exJob (ArgsTableID 20)) =
     (exMeta\<lparr>Schemas := [5 \<mapsto> [exTable\<lparr>ID := 20\<rparr>]], SchemaVersion := 8\<rparr>,
      (exJob (ArgsTableID 20))\<lparr>JState := JobDone,
         History := [\<lparr>HVersion = 8, HJobID = 1, HTable = exTable\<lparr>ID := 20\<rparr>\<rparr>]\<rparr>,
      None) \<and>
   onDropTable exMeta (exJob ArgsOther) =
     (exMeta\<lparr>Schemas := [5 \<mapsto> [exTable\<lparr>State := StateWriteOnly\<rparr>]], SchemaVersion := 8\<rparr>,
      (exJob ArgsOther)\<lparr>SchemaState := StateWriteOnly\<rparr>, None) \<and>
   onDropTable (exMeta\<lparr>Schemas := [5 \<mapsto> [exTable\<lparr>State := StateDeleteOnly\<rparr>]]\<rparr>)
       (exJob ArgsOther) =
     (exMeta\<lparr>Schemas := [5 \<mapsto> []], SchemaVersion := 8\<rparr>,
      (exJob ArgsOther)\<lparr>JState := JobDone,
         History := [\<lparr>HVersion = 8, HJobID = 1, HTable = exTable\<lparr>State := StateNone\<rparr>\<rparr>]\<rparr>,
      None) \<and>
   SchemaVersion (exMeta\<lparr>SchemaVersion := 8\<rparr>) =
     SchemaVersion (exMeta\<lparr>Schemas := [5 \<mapsto> []]\<rparr>) + 1 \<and>
   SchemaVersion (exMeta\<lparr>Schemas := [5 \<mapsto> [exTable\<lparr>ID := 20\<rparr>]], SchemaVersion := 8\<rparr>) =
     SchemaVersion exMeta + 1 \<and>
   SchemaVersion
     (exMeta\<lparr>Schemas := [5 \<mapsto> [exTable\<lparr>State := StateWriteOnly\<rparr>]], SchemaVersion := 8\<rparr>) =
     SchemaVersion exMeta + 1 \<and>
   SchemaVersion (exMeta\<lparr>Schemas := [5 \<mapsto> []], SchemaVersion := 8\<rparr>) =
     SchemaVersion (exMeta\<lparr>Schemas := [5 \<mapsto> [exTable\<lparr>State := StateDeleteOnly\<rparr>]]\<rparr>) + 1"
proof -
  have rc: "onCreateTable (exMeta\<lparr>Schemas := [5 \<mapsto> []]\<rparr>) (exJob (ArgsTableInfo exTable)) =
     (exMeta\<lparr>SchemaVersion := 8\<rparr>,
      (exJob (ArgsTableInfo exTable))\<lparr>SchemaState := StatePublic, JState := JobDone,
         History := [\<lparr>HVersion = 8, HJobID = 1, HTable = exTable\<rparr>]\<rparr>,
      None)"
    by (simp add: run_defs)
  have rt: "onTruncateTable exMeta (exJob (ArgsTableID 20)) =
     (exMeta\<lparr>Schemas := [5 \<mapsto> [exTable\<lparr>ID := 20\<rparr>]], SchemaVersion := 8\<rparr>,
      (exJob (ArgsTableID 20))\<lparr>JState := JobDone,
         History := [\<lparr>HVersion = 8, HJobID = 1, HTable = exTable\<lparr>ID := 20\<rparr>\<rparr>]\<rparr>,
      None)"
    by (simp add: run_defs)
  have rd: "onDropTable exMeta (exJob ArgsOther) =
     (exMeta\<lparr>Schemas := [5 \<mapsto> [exTable\<lparr>State := StateWriteOnly\<rparr>]], SchemaVersion := 8\<rparr>,
      (exJob ArgsOther)\<lparr>SchemaState := StateWriteOnly\<rparr>, None)"
    by (simp add: run_defs)
  have rl: "onDropTable (exMeta\<lparr>Schemas := [5 \<mapsto> [exTable\<lparr>State := StateDeleteOnly\<rparr>]]\<rparr>)
       (exJob ArgsOther) =
     (exMeta\<lparr>Schemas := [5 \<mapsto> []], SchemaVersion := 8\<rparr>,
      (exJob ArgsOther)\<lparr>JState := JobDone,
         History := [\<lparr>HVersion = 8, HJobID = 1, HTable = exTable\<lparr>State := StateNone\<rparr>\<rparr>]\<rparr>,
      None)"
    by (simp add: run_defs)
  show ?thesis
    using rc rt rd rl
      version_bump_and_history[of "exMeta\<lparr>Schemas := [5 \<mapsto> []]\<rparr>"
        "exJob (ArgsTableInfo exTable)" "exMeta\<lparr>SchemaVersion := 8\<rparr>"
        "(exJob (ArgsTableInfo exTable))\<lparr>SchemaState := StatePublic, JState := JobDone,
           History := [\<lparr>HVersion = 8, HJobID = 1, HTable = exTable\<rparr>]\<rparr>"]
      version_bump_and_history[of exMeta "exJob (ArgsTableID 20)"
        "exMeta\<lparr>Schemas := [5 \<mapsto> [exTable\<lparr>ID := 20\<rparr>]], SchemaVersion := 8\<rparr>"
        "(exJob (ArgsTableID 20))\<lparr>JState := JobDone,
           History := [\<lparr>HVersion = 8, HJobID = 1, HTable = exTable\<lparr>ID := 20\<rparr>\<rparr>]\<rparr>"]
      version_bump_and_history[of exMeta "exJob ArgsOther"
        "exMeta\<lparr>Schemas := [5 \<mapsto> [exTable\<lparr>State := StateWriteOnly\<rparr>]], SchemaVersion := 8\<rparr>"
        "(exJob ArgsOther)\<lparr>SchemaState := StateWriteOnly\<rparr>"]
      version_bump_and_history[of
        "exMeta\<lparr>Schemas := [5 \<mapsto> [exTable\<lparr>State := StateDeleteOnly\<rparr>]]\<rparr>" "exJob ArgsOther"
        "exMeta\<lparr>Schemas := [5 \<mapsto> []], SchemaVersion := 8\<rparr>"
        "(exJob ArgsOther)\<lparr>JState := JobDone,
           History := [\<lparr>HVersion = 8, HJobID = 1, HTable = exTable\<lparr>State := StateNone\<rparr>\<rparr>]\<rparr>"]
    by blast
qed

section \<open>Reclamation in bounded batches\<close>

lemma delFirst_count:
  "length (filter P (delFirst P n xs)) = length (filter P xs) - n"
  by (induction P n xs rule: delFirst.induct) auto

lemma delFirst_length:
  "length (delFirst P n xs) = length xs - min n (length (filter P xs))"
proof (induction P n xs rule: delFirst.induct)
  case (3 P n x xs)
  have "min (Suc n) (length (filter P xs)) \<le> length xs"
    using length_filter_le[of P xs] by (rule min.coboundedI2)
  then show ?case using 3 by (simp add: Suc_diff_le)
qed simp_all

lemma delKeysWithPrefix_Inr:
  assumes "0 \<le> limit" and "delKeysWithPrefix d p limit = (d', Inr cnt)"
  shows "cnt = int (min (length (filter (HasPrefix p) (store d))) (nat limit)) \<and>
         store d' = delFirst (HasPrefix p)
                      (min (length (filter (HasPrefix p) (store d))) (nat limit)) (store d)"
  using assms
  by (auto simp: delKeysWithPrefix_def Let_def split: list.splits option.splits)

lemma delReorgTable_None_inv:
  assumes "delReorgTable lim d t job = (d', job', None)"
  shows "\<exists>cnt. delKeysWithPrefix d (EncodeTablePrefix (TableID job)) lim = (d', Inr cnt) \<and>
           job' = (if cnt < lim then job\<lparr>SchemaState := StateNone, JState := JobDone\<rparr> else job)"
  using assms
  by (auto simp: delReorgTable_def dropTableData_def Let_def
      split: prod.splits sum.splits if_splits)

lemma delReorgTable_None:
  assumes "0 \<le> lim" and "delReorgTable lim d t job = (d', job', None)"
  shows "length (store d') = length (store d) - min (rowCount d (TableID job)) (nat lim) \<and>
         rowCount d' (TableID job) = rowCount d (TableID job) - nat lim \<and>
         job' = (if rowCount d (TableID job) < nat lim
                 then job\<lparr>SchemaState := StateNone, JState := JobDone\<rparr> else job)"
proof -
  let ?p = "EncodeTablePrefix (TableID job)"
  let ?n = "length (filter (HasPrefix ?p) (store d))"
  from delReorgTable_None_inv[OF assms(2)] obtain cnt where
    k: "delKeysWithPrefix d ?p lim = (d', Inr cnt)" and
    j: "job' = (if cnt < lim then job\<lparr>SchemaState := StateNone, JState := JobDone\<rparr> else job)"
    by blast
  from delKeysWithPrefix_Inr[OF assms(1) k] have
    cnt: "cnt = int (min ?n (nat lim))" and
    st: "store d' = delFirst (HasPrefix ?p) (min ?n (nat lim)) (store d)" by simp_all
  have 1: "length (store d') = length (store d) - min ?n (nat lim)"
    unfolding st delFirst_length by simp
  have 2: "length (filter (HasPrefix ?p) (store d')) = ?n - nat lim"
    unfolding st delFirst_count by simp
  have 3: "cnt < lim \<longleftrightarrow> ?n < nat lim"
    using assms(1) cnt by (auto simp: min_def)
  show ?thesis using 1 2 3 j by (simp add: rowCount_def)
qed

lemma rowCount_le: "rowCount d tid \<le> length (store d)"
  by (simp add: rowCount_def)

text \<open>
  Claim C7. An invocation of \<open>delReorgTable\<close> with batch limit \<open>lim\<close> (not
  negative) that returns without error deletes rows only, and deletes
  \<open>min n lim\<close> of them, where \<open>n\<close> is the number of rows of the job's table
  still in the store: at most \<open>lim\<close>, all of them rows of that table. When the
  number deleted equals \<open>lim\<close> the job is left exactly as it was (outcome and
  sub-state unchanged, to be invoked again); when it is smaller (zero included) the
  job's sub-state is reset to None and its outcome set to Done.
\<close>

theorem delReorgTable_batch:
  assumes "0 \<le> lim" and "delReorgTable lim d t job = (d', job', None)"
  shows "length (store d') \<le> length (store d) \<and>
         length (store d) - length (store d') = min (rowCount d (TableID job)) (nat lim) \<and>
         length (store d) - length (store d') \<le> nat lim \<and>
         rowCount d' (TableID job) =
           rowCount d (TableID job) - (length (store d) - length (store d')) \<and>
         (length (store d) - length (store d') = nat lim \<longrightarrow> job' = job) \<and>
         (length (store d) - length (store d') < nat lim \<longrightarrow>
            job' = job\<lparr>SchemaState := StateNone, JState := JobDone\<rparr>)"
proof -
  let ?n = "rowCount d (TableID job)"
  have le: "?n \<le> length (store d)" by (rule rowCount_le)
  from delReorgTable_None[OF assms] have
    l: "length (store d') = length (store d) - min ?n (nat lim)" and
    c: "rowCount d' (TableID job) = ?n - nat lim" and
    j: "job' = (if ?n < nat lim then job\<lparr>SchemaState := StateNone, JState := JobDone\<rparr> else job)"
    by simp_all
  have del: "length (store d) - length (store d') = min ?n (nat lim)"
    using l le by (simp add: min_def split: if_splits)
  have "length (store d') \<le> length (store d)" using l by simp
  then show ?thesis using del c j by (auto simp: min_def)
qed

lemma delReorgTable_healthy:
  "storeFaults d = [] \<Longrightarrow>
   snd (snd (delReorgTable lim d t job)) = None \<and>
   storeFaults (fst (delReorgTable lim d t job)) = [] \<and>
   TableID (fst (snd (delReorgTable lim d t job))) = TableID job"
  by (auto simp: delReorgTable_def dropTableData_def delKeysWithPrefix_def Let_def)


lemma reorgRun_Suc:
  "reorgRun lim d t job (Suc k) =
     delReorgTable lim (fst (reorgRun lim d t job k)) t (fst (snd (reorgRun lim d t job k)))"
  by (simp split: prod.splits)

lemma reorgRun_healthy:
  "storeFaults d = [] \<Longrightarrow>
   storeFaults (fst (reorgRun lim d t job k)) = [] \<and>
   snd (snd (reorgRun lim d t job k)) = None \<and>
   TableID (fst (snd (reorgRun lim d t job k))) = TableID job"
proof (induction k)
  case 0
  then show ?case by simp
next
  case (Suc k)
  then show ?case
    using delReorgTable_healthy[of "fst (reorgRun lim d t job k)" lim t
        "fst (snd (reorgRun lim d t job k))"]
    unfolding reorgRun_Suc by simp
qed

lemma reorgRun_step:
  assumes "storeFaults d = []"
  shows "delReorgTable lim (fst (reorgRun lim d t job k)) t (fst (snd (reorgRun lim d t job k))) =
           (fst (reorgRun lim d t job (Suc k)), fst (snd (reorgRun lim d t job (Suc k))), None)"
  using reorgRun_healthy[OF assms, of lim t job "Suc k"] unfolding reorgRun_Suc
  by (metis prod.collapse)

lemma exStore_rows: "rowCount exStore 10 = 250" "length (store exStore) = 252"
  by (simp_all add: exStore_def rowCount_def EncodeTablePrefix_def HasPrefix_def o_def)

text \<open>
  The spec's scenario, limit 100 over 250 rows: after the first invocation 150 rows
  remain and the job is Running, after the second 50 and Running, after the third
  none and Done; the fourth deletes nothing and the job remains Done.
\<close>

theorem delReorgTable_batch_witness:
  "rowCount exStore 10 = 250 \<and>
   rowCount (fst (reorgRun 100 exStore exMeta (exJob ArgsOther) (Suc 0))) 10 = 150 \<and>
   JState (fst (snd (reorgRun 100 exStore exMeta (exJob ArgsOther) (Suc 0)))) = JobRunning \<and>
   rowCount (fst (reorgRun 100 exStore exMeta (exJob ArgsOther) (Suc (Suc 0)))) 10 = 50 \<and>
   JState (fst (snd (reorgRun 100 exStore exMeta (exJob ArgsOther) (Suc (Suc 0))))) = JobRunning \<and>
   rowCount (fst (reorgRun 100 exStore exMeta (exJob ArgsOther) (Suc (Suc (Suc 0))))) 10 = 0 \<and>
   JState (fst (snd (reorgRun 100 exStore exMeta (exJob ArgsOther) (Suc (Suc (Suc 0)))))) = JobDone \<and>
   SchemaState (fst (snd (reorgRun 100 exStore exMeta (exJob ArgsOther) (Suc (Suc (Suc 0)))))) =
     StateNone \<and>
   length (store (fst (reorgRun 100 exStore exMeta (exJob ArgsOther) (Suc (Suc (Suc (Suc 0))))))) =
     length (store (fst (reorgRun 100 exStore exMeta (exJob ArgsOther) (Suc (Suc (Suc 0)))))) \<and>
   JState (fst (snd (reorgRun 100 exStore exMeta (exJob ArgsOther) (Suc (Suc (Suc (Suc 0))))))) =
     JobDone"
proof -
  let ?R = "reorgRun 100 exStore exMeta (exJob ArgsOther)"
  have f: "storeFaults exStore = []" by (simp add: exStore_def)
  have tid: "\<And>k. TableID (fst (snd (?R k))) = 10"
    using reorgRun_healthy[OF f, of 100 exMeta "exJob ArgsOther"] by (simp add: exJob_def)
  have tid0: "TableID (exJob ArgsOther) = 10" by (simp add: exJob_def)
  have lim: "(0::int) \<le> 100" by simp
  have j0: "fst (snd (?R 0)) = exJob ArgsOther" "fst (?R 0) = exStore" by simp_all
  note s0 = delReorgTable_batch[OF lim reorgRun_step[OF f, of 100 exMeta "exJob ArgsOther" 0]]
  note s1 = delReorgTable_batch[OF lim reorgRun_step[OF f, of 100 exMeta "exJob ArgsOther" "Suc 0"]]
  note s2 = delReorgTable_batch[OF lim
      reorgRun_step[OF f, of 100 exMeta "exJob ArgsOther" "Suc (Suc 0)"]]
  note s3 = delReorgTable_batch[OF lim
      reorgRun_step[OF f, of 100 exMeta "exJob ArgsOther" "Suc (Suc (Suc 0))"]]
  have c1: "rowCount (fst (?R (Suc 0))) 10 = 150" "fst (snd (?R (Suc 0))) = exJob ArgsOther"
    using s0 exStore_rows unfolding tid j0 tid0 by (simp_all del: reorgRun.simps)
  have c2: "rowCount (fst (?R (Suc (Suc 0)))) 10 = 50"
    "fst (snd (?R (Suc (Suc 0)))) = exJob ArgsOther"
    using s1 c1 unfolding tid tid0 by (simp_all del: reorgRun.simps)
  have c3: "rowCount (fst (?R (Suc (Suc (Suc 0))))) 10 = 0"
    "fst (snd (?R (Suc (Suc (Suc 0))))) =
       (exJob ArgsOther)\<lparr>SchemaState := StateNone, JState := JobDone\<rparr>"
    using s2 c2 unfolding tid tid0 by (simp_all del: reorgRun.simps)
  have c4: "length (store (fst (?R (Suc (Suc (Suc (Suc 0))))))) =
              length (store (fst (?R (Suc (Suc (Suc 0))))))"
    "JState (fst (snd (?R (Suc (Suc (Suc (Suc 0))))))) = JobDone"
    using s3 c3 unfolding tid tid0 by (simp_all del: reorgRun.simps)
  show ?thesis using exStore_rows(1) c1 c2 c3 c4 by (simp add: exJob_def del: reorgRun.simps)
qed

section \<open>Transient failures of the store\<close>

lemma firstFaultAt_0: "firstFaultAt 0 c t \<Longrightarrow> \<exists>rest. Faults t = Some c # rest"
  by (cases "Faults t") (auto simp: firstFaultAt_def)

lemma firstFaultAt_Suc:
  "firstFaultAt (Suc k) c t \<Longrightarrow>
   \<exists>rest. Faults t = None # rest \<and> firstFaultAt k c (t\<lparr>Faults := rest\<rparr>)"
  by (cases "Faults t") (auto simp: firstFaultAt_def)

lemma firstFaultAt_shapes:
  "firstFaultAt (Suc 0) c t \<Longrightarrow> \<exists>rest. Faults t = None # Some c # rest"
  "firstFaultAt (Suc (Suc 0)) c t \<Longrightarrow> \<exists>rest. Faults t = None # None # Some c # rest"
  "firstFaultAt (Suc (Suc (Suc 0))) c t \<Longrightarrow>
     \<exists>rest. Faults t = None # None # None # Some c # rest"
  by (auto dest!: firstFaultAt_Suc firstFaultAt_0)

lemma nextFault_tl: "nextFault t = (t1, f) \<Longrightarrow> Faults t1 = tl (Faults t)"
  by (auto simp: nextFault_def split: list.splits)

lemma ops_tl:
  "ListTables t db = (t1, r1) \<Longrightarrow> Faults t1 = tl (Faults t)"
  "GetTable t db i = (t1, r2) \<Longrightarrow> Faults t1 = tl (Faults t)"
  "CreateTable t db tbl = (t1, r3) \<Longrightarrow> Faults t1 = tl (Faults t)"
  "UpdateTable t db tbl = (t1, r3) \<Longrightarrow> Faults t1 = tl (Faults t)"
  "DropTable t db i = (t1, r3) \<Longrightarrow> Faults t1 = tl (Faults t)"
  "updateSchemaVersion t job = (t1, r4) \<Longrightarrow> Faults t1 = tl (Faults t)"
  by (auto simp: ListTables_def GetTable_def CreateTable_def UpdateTable_def DropTable_def
        updateSchemaVersion_def nextFault_def split: list.splits option.splits)

lemma onCreateTable_ops:
  "onCreateTable t job = (t', job', e) \<Longrightarrow> opsPerformed t t' \<le> 3"
  by (auto simp: onCreateTable_def Let_def opsPerformed_def dest!: ops_tl
      split: sum.splits prod.splits if_splits option.splits SchemaState.splits)


lemma onDropTable_ops:
  "onDropTable t job = (t', job', e) \<Longrightarrow> opsPerformed t t' \<le> 4"
  by (auto simp: onDropTable_def Let_def opsPerformed_def dest!: ops_tl
      split: sum.splits prod.splits if_splits option.splits SchemaState.splits)

lemma onTruncateTable_ops:
  "onTruncateTable t job = (t', job', e) \<Longrightarrow> opsPerformed t t' \<le> 4"
  by (auto simp: onTruncateTable_def Let_def opsPerformed_def dest!: ops_tl
      split: sum.splits prod.splits if_splits option.splits)

lemmas op_defs = nextFault_def ListTables_def GetTable_def CreateTable_def UpdateTable_def
  DropTable_def updateSchemaVersion_def opsPerformed_def Let_def

lemma onCreateTable_fault:
  assumes "firstFaultAt k c t" and "onCreateTable t job = (t', job', e)"
    and "k < opsPerformed t t'"
  shows "e = Some (ErrStore c) \<and> JState job' = JState job"
proof -
  have "k < 3" using onCreateTable_ops[OF assms(2)] assms(3) by simp
  then consider "k = 0" | "k = Suc 0" | "k = Suc (Suc 0)" by linarith
  then show ?thesis
  proof cases
    case 1
    then obtain rest where "Faults t = Some c # rest" using assms(1) firstFaultAt_0 by blast
    then show ?thesis using assms(2,3)
      by (auto simp: onCreateTable_def op_defs split: sum.splits option.splits)
  next
    case 2
    then obtain rest where "Faults t = None # Some c # rest"
      using assms(1) firstFaultAt_shapes(1) by blast
    then show ?thesis using assms(2,3) 2
      by (auto simp: onCreateTable_def op_defs split: sum.splits option.splits)
  next
    case 3
    then obtain rest where "Faults t = None # None # Some c # rest"
      using assms(1) firstFaultAt_shapes(2) by blast
    then show ?thesis using assms(2,3) 3
      by (auto simp: onCreateTable_def op_defs
          split: sum.splits option.splits SchemaState.splits)
  qed
qed


lemma onTruncateTable_fault:
  assumes "firstFaultAt k c t" and "onTruncateTable t job = (t', job', e)"
    and "k < opsPerformed t t'"
  shows "e = Some (ErrStore c) \<and>
         JState job' = (if k = 1 \<or> k = 2 then JobCancelled else JState job)"
proof -
  have "k < 4" using onTruncateTable_ops[OF assms(2)] assms(3) by simp
  then consider "k = 0" | "k = Suc 0" | "k = Suc (Suc 0)" | "k = Suc (Suc (Suc 0))" by linarith
  then show ?thesis
  proof cases
    case 1
    then obtain rest where "Faults t = Some c # rest" using assms(1) firstFaultAt_0 by blast
    then show ?thesis using assms(2,3) 1
      by (auto simp: onTruncateTable_def op_defs split: sum.splits option.splits)
  next
    case 2
    then obtain rest where "Faults t = None # Some c # rest"
      using assms(1) firstFaultAt_shapes(1) by blast
    then show ?thesis using assms(2,3) 2
      by (auto simp: onTruncateTable_def op_defs split: sum.splits option.splits)
  next
    case 3
    then obtain rest where "Faults t = None # None # Some c # rest"
      using assms(1) firstFaultAt_shapes(2) by blast
    then show ?thesis using assms(2,3) 3
      by (auto simp: onTruncateTable_def op_defs split: sum.splits option.splits)
  next
    case 4
    then obtain rest where "Faults t = None # None # None # Some c # rest"
      using assms(1) firstFaultAt_shapes(3) by blast
    then show ?thesis using assms(2,3) 4
      by (auto simp: onTruncateTable_def op_defs split: sum.splits option.splits)
  qed
qed

lemma onDropTable_fault:
  assumes "firstFaultAt k c t" and "onDropTable t job = (t', job', e)"
    and "k < opsPerformed t t'"
    and "\<not> (k = 2 \<and> map_option State (tableOf t (SchemaID job) (TableID job)) = Some StateDeleteOnly)"
  shows "e = Some (ErrStore c) \<and> JState job' = JState job"
proof -
  have "k < 4" using onDropTable_ops[OF assms(2)] assms(3) by simp
  then consider "k = 0" | "k = Suc 0" | "k = Suc (Suc 0)" | "k = Suc (Suc (Suc 0))" by linarith
  then show ?thesis
  proof cases
    case 1
    then obtain rest where "Faults t = Some c # rest" using assms(1) firstFaultAt_0 by blast
    then show ?thesis using assms(2,3) 1
      by (auto simp: onDropTable_def op_defs split: sum.splits option.splits)
  next
    case 2
    then obtain rest where "Faults t = None # Some c # rest"
      using assms(1) firstFaultAt_shapes(1) by blast
    then show ?thesis using assms(2,3) 2
      by (auto simp: onDropTable_def op_defs split: sum.splits option.splits)
  next
    case 3
    then obtain rest where "Faults t = None # None # Some c # rest"
      using assms(1) firstFaultAt_shapes(2) by blast
    then show ?thesis using assms(2,3,4) 3
      by (auto simp: onDropTable_def op_defs tableOf_def
          split: sum.splits option.splits SchemaState.splits)
  next
    case 4
    then obtain rest where "Faults t = None # None # None # Some c # rest"
      using assms(1) firstFaultAt_shapes(3) by blast
    then show ?thesis using assms(2,3) 4
      by (auto simp: onDropTable_def op_defs split: sum.splits option.splits SchemaState.splits)
  qed
qed

text \<open>
  Claim C8, as stated, fails: in the truncate handler a transient failure of
  \<open>DropTable\<close> (second store operation) or of \<open>CreateTable\<close> (third store
  operation) is returned to the caller with the job set to Cancelled.
\<close>

theorem onTruncateTable_store_failure_counterexample:
  "JState (exJob (ArgsTableID 20)) = JobRunning \<and>
   onTruncateTable (exMeta\<lparr>Faults := [None, Some 7]\<rparr>) (exJob (ArgsTableID 20)) =
     (exMeta, (exJob (ArgsTableID 20))\<lparr>JState := JobCancelled\<rparr>, Some (ErrStore 7)) \<and>
   onTruncateTable (exMeta\<lparr>Faults := [None, None, Some 7]\<rparr>) (exJob (ArgsTableID 20)) =
     (exMeta\<lparr>Schemas := [5 \<mapsto> []]\<rparr>, (exJob (ArgsTableID 20))\<lparr>JState := JobCancelled\<rparr>,
      Some (ErrStore 7))"
  by (simp add: run_defs)

text \<open>
  Claim C8, amended. Let the first store operation that fails transiently be the
  one with index \<open>k\<close>, failing with code \<open>c\<close>, and let the invocation get as far as
  performing it. The create handler returns that error and leaves the job's outcome
  unchanged. So does the drop handler, the one case left aside being the
  \<open>UpdateTable\<close> call of the last transition (index 2 on a DeleteOnly table).
  The truncate handler returns that error too; it leaves the job's outcome unchanged
  when the failing operation is \<open>GetTable\<close> or the version bump (index 0 or 3),
  and sets it to Cancelled when the failing operation is \<open>DropTable\<close> or
  \<open>CreateTable\<close> (index 1 or 2).
\<close>

theorem transient_failure_outcomes:
  assumes "firstFaultAt k c t"
  shows "(onCreateTable t job = (t', job', e) \<and> k < opsPerformed t t' \<longrightarrow>
            e = Some (ErrStore c) \<and> JState job' = JState job) \<and>
         (onDropTable t job = (t', job', e) \<and> k < opsPerformed t t' \<and>
            \<not> (k = 2 \<and> map_option State (tableOf t (SchemaID job) (TableID job)) =
                           Some StateDeleteOnly) \<longrightarrow>
            e = Some (ErrStore c) \<and> JState job' = JState job) \<and>
         (onTruncateTable t job = (t', job', e) \<and> k < opsPerformed t t' \<longrightarrow>
            e = Some (ErrStore c) \<and>
            JState job' = (if k = 1 \<or> k = 2 then JobCancelled else JState job))"
  using onCreateTable_fault[OF assms, of job t' job' e]
    onDropTable_fault[OF assms, of job t' job' e]
    onTruncateTable_fault[OF assms, of job t' job' e]
  by blast

text \<open>The version bump (index 1 in the create and drop handlers, index 3 in the
  truncate handler) fails with code 7 on the sample store.\<close>

theorem transient_failure_outcomes_witness:
  "firstFaultAt 1 7 (exMeta\<lparr>Faults := [None, Some 7]\<rparr>) \<and>
   onCreateTable (exMeta\<lparr>Faults := [None, Some 7]\<rparr>)
       (exJob (ArgsTableInfo (exTable\<lparr>ID := 11, Name := \<lparr>CIStr_O = ''U'', CIStr_L = ''u''\<rparr>\<rparr>))) =
     (exMeta, exJob (ArgsTableInfo (exTable\<lparr>ID := 11, Name := \<lparr>CIStr_O = ''U'', CIStr_L = ''u''\<rparr>\<rparr>)),
      Some (ErrStore 7)) \<and>
   onDropTable (exMeta\<lparr>Faults := [None, Some 7]\<rparr>) (exJob ArgsOther) =
     (exMeta, exJob ArgsOther, Some (ErrStore 7)) \<and>
   firstFaultAt 3 7 (exMeta\<lparr>Faults := [None, None, None, Some 7]\<rparr>) \<and>
   onTruncateTable (exMeta\<lparr>Faults := [None, None, None, Some 7]\<rparr>) (exJob (ArgsTableID 20)) =
     (exMeta\<lparr>Schemas := [5 \<mapsto> [exTable\<lparr>ID := 20\<rparr>]]\<rparr>, exJob (ArgsTableID 20),
      Some (ErrStore 7)) \<and>
   JState (exJob (ArgsTableID 20)) = JobRunning"
proof -
  have f1: "firstFaultAt 1 7 (exMeta\<lparr>Faults := [None, Some 7]\<rparr>)"
    by (simp add: firstFaultAt_def)
  have f3: "firstFaultAt 3 7 (exMeta\<lparr>Faults := [None, None, None, Some 7]\<rparr>)"
    by (simp add: firstFaultAt_def numeral_3_eq_3)
  have rc: "onCreateTable (exMeta\<lparr>Faults := [None, Some 7]\<rparr>)
       (exJob (ArgsTableInfo (exTable\<lparr>ID := 11, Name := \<lparr>CIStr_O = ''U'', CIStr_L = ''u''\<rparr>\<rparr>))) =
     (exMeta, exJob (ArgsTableInfo (exTable\<lparr>ID := 11, Name := \<lparr>CIStr_O = ''U'', CIStr_L = ''u''\<rparr>\<rparr>)),
      Some (ErrStore 7))"
    by (simp add: run_defs)
  have rd: "onDropTable (exMeta\<lparr>Faults := [None, Some 7]\<rparr>) (exJob ArgsOther) =
     (exMeta, exJob ArgsOther, Some (ErrStore 7))"
    by (simp add: run_defs)
  have rt: "onTruncateTable (exMeta\<lparr>Faults := [None, None, None, Some 7]\<rparr>)
       (exJob (ArgsTableID 20)) =
     (exMeta\<lparr>Schemas := [5 \<mapsto> [exTable\<lparr>ID := 20\<rparr>]]\<rparr>, exJob (ArgsTableID 20),
      Some (ErrStore 7))"
    by (simp add: run_defs)
  have p1: "1 < opsPerformed (exMeta\<lparr>Faults := [None, Some 7]\<rparr>) exMeta"
    by (simp add: opsPerformed_def exMeta_def)
  have p3: "3 < opsPerformed (exMeta\<lparr>Faults := [None, None, None, Some 7]\<rparr>)
              (exMeta\<lparr>Schemas := [5 \<mapsto> [exTable\<lparr>ID := 20\<rparr>]]\<rparr>)"
    by (simp add: opsPerformed_def exMeta_def)
  have nd: "\<not> ((1::nat) = 2 \<and> map_option State (tableOf (exMeta\<lparr>Faults := [None, Some 7]\<rparr>)
                 (SchemaID (exJob ArgsOther)) (TableID (exJob ArgsOther))) = Some StateDeleteOnly)"
    by simp
  show ?thesis
    using f1 f3 rc rd rt
      transient_failure_outcomes[OF f1,
        of "exJob (ArgsTableInfo (exTable\<lparr>ID := 11, Name := \<lparr>CIStr_O = ''U'', CIStr_L = ''u''\<rparr>\<rparr>))"
           exMeta
           "exJob (ArgsTableInfo (exTable\<lparr>ID := 11, Name := \<lparr>CIStr_O = ''U'', CIStr_L = ''u''\<rparr>\<rparr>))"
           "Some (ErrStore 7)"] p1
      transient_failure_outcomes[OF f1, of "exJob ArgsOther" exMeta "exJob ArgsOther"
           "Some (ErrStore 7)"] nd
      transient_failure_outcomes[OF f3, of "exJob (ArgsTableID 20)"
           "exMeta\<lparr>Schemas := [5 \<mapsto> [exTable\<lparr>ID := 20\<rparr>]]\<rparr>" "exJob (ArgsTableID 20)"
           "Some (ErrStore 7)"] p3
    by (simp add: exJob_def)
qed

end
